theory Spec2Isabelle
  imports Main "HOL-Library.Sublist"
begin

section \<open>The achievement notification relay (src/index.ts)\<close>

text \<open>
  The server has one route, \<^verbatim>\<open>POST /notify-achievement\<close>, with three stages in this
  order: the middleware \<^verbatim>\<open>authenticateRequest\<close>, the upload middleware
  \<^verbatim>\<open>upload.single('achievementImageFile')\<close> and the asynchronous handler. This theory
  embeds the route from the moment a request is handed to \<^verbatim>\<open>authenticateRequest\<close>;
  the application-wide middlewares in front of it (\<^verbatim>\<open>cors\<close>, \<^verbatim>\<open>express.json\<close>) are
  not modelled.

  JavaScript strings are modelled as \<^typ>\<open>string\<close>: the bytes of their UTF-8
  encoding. The only operations the route applies to them (\<^verbatim>\<open>startsWith\<close> and
  \<^verbatim>\<open>split\<close> with ASCII arguments, concatenation, the test for the empty string,
  \<^verbatim>\<open>!==\<close>) give the same results on the encoded strings.
\<close>

subsection \<open>Values that \<^verbatim>\<open>JSON.parse\<close> returns\<close>

text \<open>
  The payload is whatever \<^verbatim>\<open>JSON.parse\<close> returns; the route never checks its type.
  Numbers are IEEE doubles in JavaScript; the model keeps them abstract (the type
  parameter \<open>'n\<close>) and takes the two operations the route applies to them, the
  truth test and the conversion to a string, from the environment.
  An object is the list of its own properties, each name once.
\<close>

datatype 'n json =
    JNull
  | JBool bool
  | JNumber 'n
  | JString string
  | JArray "'n json list"
  | JObject "(string \<times> 'n json) list"

text \<open>
  \<^verbatim>\<open>const { userName, ... } = payload\<close>: reading a property of a value that is not
  \<^verbatim>\<open>null\<close>. Only an object made by \<^verbatim>\<open>JSON.parse\<close> has own properties with these
  names; on an array, a string, a number or a boolean the lookup goes to the
  prototype, which has none of the four names, and gives \<^verbatim>\<open>undefined\<close> (\<open>None\<close>).
\<close>

fun get_property :: "'n json \<Rightarrow> string \<Rightarrow> 'n json option" where
  "get_property (JObject kvs) k = map_of kvs k"
| "get_property _ k = None"

text \<open>The truth test of \<^verbatim>\<open>!x\<close>, \<^verbatim>\<open>x && ...\<close> and \<^verbatim>\<open>if (x)\<close>; \<open>None\<close> is \<^verbatim>\<open>undefined\<close>.\<close>

fun truthy :: "('n \<Rightarrow> bool) \<Rightarrow> 'n json option \<Rightarrow> bool" where
  "truthy nz None = False"
| "truthy nz (Some JNull) = False"
| "truthy nz (Some (JBool b)) = b"
| "truthy nz (Some (JNumber n)) = (\<not> nz n)"
| "truthy nz (Some (JString s)) = (s \<noteq> [])"
| "truthy nz (Some (JArray xs)) = True"
| "truthy nz (Some (JObject kvs)) = True"

text \<open>
  \<^verbatim>\<open>Array.prototype.join\<close> on the converted elements: \<open>None\<close> when the conversion of
  an element threw.
\<close>

fun Array_join :: "string option list \<Rightarrow> string option" where
  "Array_join [] = Some []"
| "Array_join [x] = x"
| "Array_join (x # y # ys) =
     (case x of None \<Rightarrow> None
      | Some s \<Rightarrow> (case Array_join (y # ys) of None \<Rightarrow> None
                   | Some r \<Rightarrow> Some (s @ '','' @ r)))"

text \<open>
  The conversion a template literal \<^verbatim>\<open>`${x}`\<close> applies to a parsed value. An array is
  joined with commas, a \<^verbatim>\<open>null\<close> element giving the empty string. A plain object
  gives \<^verbatim>\<open>[object Object]\<close> through \<^verbatim>\<open>Object.prototype.toString\<close>, unless it has an
  own property \<^verbatim>\<open>toString\<close>: parsed data is never callable, \<^verbatim>\<open>valueOf\<close> does not
  return a primitive either, and the conversion throws a \<^verbatim>\<open>TypeError\<close> (\<open>None\<close>).
\<close>

fun ToString :: "('n \<Rightarrow> string) \<Rightarrow> 'n json \<Rightarrow> string option" where
  "ToString ns JNull = Some ''null''"
| "ToString ns (JBool b) = Some (if b then ''true'' else ''false'')"
| "ToString ns (JNumber n) = Some (ns n)"
| "ToString ns (JString s) = Some s"
| "ToString ns (JArray xs) =
     Array_join (map (\<lambda>x. if x = JNull then Some [] else ToString ns x) xs)"
| "ToString ns (JObject kvs) =
     (if ''toString'' \<in> fst ` set kvs then None else Some ''[object Object]'')"

text \<open>\<^verbatim>\<open>`${x}`\<close> for a destructured property: \<^verbatim>\<open>undefined\<close> prints as its name.\<close>

definition interpolate :: "('n \<Rightarrow> string) \<Rightarrow> 'n json option \<Rightarrow> string option" where
  "interpolate ns v = (case v of None \<Rightarrow> Some ''undefined'' | Some x \<Rightarrow> ToString ns x)"

subsection \<open>String operations\<close>

text \<open>\<^verbatim>\<open>s.startsWith(p)\<close>.\<close>

definition startsWith :: "string \<Rightarrow> string \<Rightarrow> bool" where
  "startsWith s p = (take (length p) s = p)"

text \<open>
  \<^verbatim>\<open>s.split(c)\<close> for a separator of one code unit: the pieces between the
  occurrences of the separator, empty pieces included; never the empty list.
\<close>

fun split_str :: "string \<Rightarrow> char \<Rightarrow> string list" where
  "split_str [] c = [[]]"
| "split_str (x # xs) c =
     (if x = c then [] # split_str xs c
      else (case split_str xs c of
              [] \<Rightarrow> [[x]]
            | p # ps \<Rightarrow> (x # p) # ps))"

text \<open>\<^verbatim>\<open>xs[i]\<close> on an array: \<^verbatim>\<open>undefined\<close> (\<open>None\<close>) out of range.\<close>

definition index :: "'a list \<Rightarrow> nat \<Rightarrow> 'a option" where
  "index xs i = (if i < length xs then Some (xs ! i) else None)"

text \<open>The decimal digits of a natural number, as a template literal prints a size.\<close>

fun decimal :: "nat \<Rightarrow> string" where
  "decimal n =
     (if n < 10 then [char_of (48 + n)]
      else decimal (n div 10) @ [char_of (48 + n mod 10)])"

declare decimal.simps [simp del]

subsection \<open>Configuration, state and environment\<close>

text \<open>
  \<^verbatim>\<open>EXPECTED_SECRET\<close> and \<^verbatim>\<open>TARGET_CHANNEL_ID\<close> are read once from the process
  environment; the process exits at start when one of them is missing or empty.
\<close>

record config =
  EXPECTED_SECRET :: string
  TARGET_CHANNEL_ID :: string

text \<open>\<^verbatim>\<open>let discordReady = false\<close>, set by the client's \<^verbatim>\<open>ready\<close> event.\<close>

record server_state =
  discordReady :: bool

definition initial_state :: server_state where
  "initial_state = \<lparr> discordReady = False \<rparr>"

definition on_ready :: "server_state \<Rightarrow> server_state" where
  "on_ready st = st \<lparr> discordReady := True \<rparr>"

text \<open>
  An exception value: a \<^verbatim>\<open>TypeError\<close> of the language itself, or whatever the chat
  client library throws (from a builder, from \<^verbatim>\<open>channels.fetch\<close> or from
  \<^verbatim>\<open>channel.send\<close>), with its text.
\<close>

datatype js_error = TypeError | Upstream string

text \<open>\<^verbatim>\<open>channel instanceof TextChannel\<close> or not.\<close>

datatype channel = TextChannel | OtherChannel

text \<open>
  \<^verbatim>\<open>req.file\<close> as the upload middleware leaves it: the file held in memory.
  \<^verbatim>\<open>originalname\<close> is \<open>None\<close> when the property is \<^verbatim>\<open>undefined\<close>;
  \<open>size_bytes\<close> is the property \<^verbatim>\<open>size\<close>.
\<close>

record uploaded_file =
  originalname :: "string option"
  buffer :: "nat list"
  size_bytes :: nat
  mimetype :: string

text \<open>
  What the upload middleware does with the body: it calls \<^verbatim>\<open>next(err)\<close> (size limit,
  unexpected field, malformed body) and the handler never runs, or it sets
  \<^verbatim>\<open>req.body.jsonData\<close> (\<open>None\<close> when the field is absent; a request carries the
  text field at most once) and \<^verbatim>\<open>req.file\<close>.
\<close>

datatype upload = UploadError | Uploaded "string option" "uploaded_file option"

record request =
  authorization :: "string option"
  multipart :: upload

text \<open>\<^verbatim>\<open>new AttachmentBuilder(buffer, { name })\<close>.\<close>

record attachment =
  attachment_buffer :: "nat list"
  attachment_name :: string

text \<open>
  The state of the \<^verbatim>\<open>EmbedBuilder\<close>. \<^verbatim>\<open>setImage\<close> and \<^verbatim>\<open>setThumbnail\<close> fill two
  different slots. A field's value is the parsed value as it is, not converted.
\<close>

record 'n embed =
  embed_color :: string
  embed_title :: string
  embed_description :: string
  embed_timestamp :: nat
  embed_fields :: "(string \<times> 'n json) list"
  embed_image :: "string option"
  embed_thumbnail :: "string option"

text \<open>The argument of \<^verbatim>\<open>channel.send\<close>.\<close>

record 'n outbound =
  embeds :: "'n embed list"
  files :: "attachment list"

text \<open>
  Everything the route takes from outside the source file: \<^verbatim>\<open>JSON.parse\<close> (\<open>Inl\<close> the
  message of the \<^verbatim>\<open>SyntaxError\<close> it throws), the two operations on numbers,
  \<^verbatim>\<open>new Date()\<close>, the library's builders and the two calls to the chat client.
  The builder methods \<^verbatim>\<open>setDescription\<close>, \<^verbatim>\<open>addFields\<close>, \<^verbatim>\<open>setImage\<close> and
  \<^verbatim>\<open>setThumbnail\<close> validate their argument and throw when they refuse it: each is
  given here by the error it throws on an argument (\<open>Some\<close>), or \<open>None\<close> when it
  accepts. \<^verbatim>\<open>setColor\<close>, \<^verbatim>\<open>setTitle\<close> and \<^verbatim>\<open>setTimestamp\<close> are called with the
  constants of the source and the current date, and are taken to accept them.
  \<^verbatim>\<open>channels.fetch\<close> throws, or returns \<^verbatim>\<open>null\<close> or a channel; \<^verbatim>\<open>channel.send\<close>
  throws (\<open>Some\<close>) or delivers.
\<close>

record 'n world =
  JSON_parse :: "string \<Rightarrow> string + 'n json"
  Number_isFalsy :: "'n \<Rightarrow> bool"
  Number_toString :: "'n \<Rightarrow> string"
  Date_now :: nat
  setDescription :: "string \<Rightarrow> js_error option"
  addFields :: "string \<times> 'n json \<Rightarrow> js_error option"
  setImage :: "string \<Rightarrow> js_error option"
  setThumbnail :: "string \<Rightarrow> js_error option"
  channels_fetch :: "string \<Rightarrow> js_error + channel option"
  channel_send :: "'n outbound \<Rightarrow> js_error option"

subsection \<open>What a run of the route does\<close>

text \<open>An argument of a \<^verbatim>\<open>console\<close> call.\<close>

datatype 'n logarg =
    Str string
  | Val "'n json"
  | Err js_error
  | ReqBody "string option"

text \<open>The effects of a run, in the order they happen.\<close>

datatype 'n effect =
    ConsoleLog "'n logarg list"
  | ConsoleWarn "'n logarg list"
  | ConsoleError "'n logarg list"
  | ChannelsFetch string
  | ChannelSend "'n outbound"

text \<open>\<^verbatim>\<open>res.status(n).json({ error: s })\<close> and \<^verbatim>\<open>res.status(n).json({ message: s })\<close>.\<close>

datatype res_body = ErrorBody string | MessageBody string

text \<open>
  How a run ends: the route wrote a response; or the upload middleware passed an
  error to the framework; or an exception left the asynchronous handler, which
  has written no response.
\<close>

datatype ending =
    Responded nat res_body
  | UploadRejected
  | Uncaught js_error

type_synonym 'n run = "'n effect list \<times> ending"

subsection \<open>The credential gate\<close>

text \<open>
  \<^verbatim>\<open>authenticateRequest\<close>. \<^verbatim>\<open>!authHeader\<close> holds for a missing header and for the
  empty string. The secret that is compared is element 1 of
  \<^verbatim>\<open>authHeader.split(' ')\<close>. The gate calls \<^verbatim>\<open>next()\<close>, or it rejects: the text it
  passes to \<^verbatim>\<open>console.warn\<close>, the status and the body of its response.
\<close>

datatype gate = Next | Reject string nat res_body

definition providedSecret :: "string \<Rightarrow> string option" where
  "providedSecret authHeader = index (split_str authHeader CHR '' '') 1"

definition authenticateRequest :: "config \<Rightarrow> string option \<Rightarrow> gate" where
  "authenticateRequest cfg authHeader =
     (case authHeader of
        None \<Rightarrow>
          Reject ''Authentication failed: Missing or invalid Authorization header.''
            401 (ErrorBody ''Unauthorized: Missing authorization header'')
      | Some h \<Rightarrow>
          if h = [] \<or> \<not> startsWith h ''Bearer '' then
            Reject ''Authentication failed: Missing or invalid Authorization header.''
              401 (ErrorBody ''Unauthorized: Missing authorization header'')
          else if providedSecret h \<noteq> Some (EXPECTED_SECRET cfg) then
            Reject ''Authentication failed: Invalid secret.''
              403 (ErrorBody ''Forbidden: Invalid secret'')
          else Next)"

subsection \<open>The message\<close>

text \<open>The title, in UTF-8: a trophy, the words, a party popper.\<close>

definition TITLE :: string where
  "TITLE = [CHR 0xF0, CHR 0x9F, CHR 0x8F, CHR 0x86] @ '' Achievement Unlocked! ''
     @ [CHR 0xF0, CHR 0x9F, CHR 0x8E, CHR 0x89]"

text \<open>
  Lines 152 to 160: the embed before the image is decided, or the error that
  \<^verbatim>\<open>setDescription\<close> or \<^verbatim>\<open>addFields\<close> throws. \<open>u\<close> and \<open>a\<close> are the conversions of
  \<^verbatim>\<open>userName\<close> and \<^verbatim>\<open>achievementName\<close> to strings. The field is added under
  \<^verbatim>\<open>if (achievementDescription)\<close>, which is false for \<^verbatim>\<open>undefined\<close>; its value is
  the parsed value as it is.
\<close>

definition base_embed ::
  "'n world \<Rightarrow> string \<Rightarrow> string \<Rightarrow> 'n json option \<Rightarrow> js_error + 'n embed" where
  "base_embed w u a achievementDescription =
     (let description = ''**'' @ u @ ''** has unlocked the achievement: **'' @ a @ ''**!'' in
      case setDescription w description of
        Some e \<Rightarrow> Inl e
      | None \<Rightarrow>
          (let embed =
                 \<lparr> embed_color = ''#00FF00'',
                   embed_title = TITLE,
                   embed_description = description,
                   embed_timestamp = Date_now w,
                   embed_fields = [],
                   embed_image = None,
                   embed_thumbnail = None \<rparr>
           in
             case achievementDescription of
               None \<Rightarrow> Inr embed
             | Some d \<Rightarrow>
                 if truthy (Number_isFalsy w) (Some d) then
                   (case addFields w (''Description'', d) of
                      Some e \<Rightarrow> Inl e
                    | None \<Rightarrow> Inr (embed \<lparr> embed_fields := [(''Description'', d)] \<rparr>))
                 else Inr embed))"

text \<open>
  \<^verbatim>\<open>uploadedFile.originalname || `achievement-${achievementName}.png`\<close>: the generated
  name is taken when \<^verbatim>\<open>originalname\<close> is \<^verbatim>\<open>undefined\<close> or empty.
\<close>

definition attachment_for :: "uploaded_file \<Rightarrow> string \<Rightarrow> attachment" where
  "attachment_for f a =
     \<lparr> attachment_buffer = buffer f,
       attachment_name =
         (case originalname f of
            None \<Rightarrow> ''achievement-'' @ a @ ''.png''
          | Some n \<Rightarrow> if n = [] then ''achievement-'' @ a @ ''.png'' else n) \<rparr>"

text \<open>
  Lines 152 to 176: the effects of building the message, and the message or the
  error thrown on the way. With a file, \<^verbatim>\<open>setImage\<close> is called on the reference to
  the attachment. Without a file, a truthy \<^verbatim>\<open>iconSource\<close> that is not a string has
  no method \<^verbatim>\<open>startsWith\<close> and the call throws a \<^verbatim>\<open>TypeError\<close>; for a string with
  one of the two prefixes, the \<^verbatim>\<open>console.log\<close> comes before \<^verbatim>\<open>setThumbnail\<close>.
\<close>

definition build_message ::
  "'n world \<Rightarrow> string \<Rightarrow> string \<Rightarrow> 'n json option \<Rightarrow> 'n json option \<Rightarrow> uploaded_file option
     \<Rightarrow> 'n effect list \<times> (js_error + 'n outbound)" where
  "build_message w u a achievementDescription iconSource uploadedFile =
     (case base_embed w u a achievementDescription of
        Inl e \<Rightarrow> ([], Inl e)
      | Inr embed' \<Rightarrow>
          (case uploadedFile of
             Some f \<Rightarrow>
               (let attachment = attachment_for f a;
                    url = ''attachment://'' @ attachment_name attachment
                in
                  case setImage w url of
                    Some e \<Rightarrow> ([], Inl e)
                  | None \<Rightarrow>
                      ([], Inr \<lparr> embeds = [embed' \<lparr> embed_image := Some url \<rparr>],
                                 files = [attachment] \<rparr>))
           | None \<Rightarrow>
               if truthy (Number_isFalsy w) iconSource then
                 (case iconSource of
                    Some (JString s) \<Rightarrow>
                      if startsWith s ''http://'' \<or> startsWith s ''https://'' then
                        (let logs = [ConsoleLog [Str ''No file uploaded, using iconSource URL as thumbnail:'',
                                                 Val (JString s)]]
                         in
                           case setThumbnail w s of
                             Some e \<Rightarrow> (logs, Inl e)
                           | None \<Rightarrow>
                               (logs, Inr \<lparr> embeds = [embed' \<lparr> embed_thumbnail := Some s \<rparr>],
                                            files = [] \<rparr>))
                      else ([], Inr \<lparr> embeds = [embed'], files = [] \<rparr>)
                  | _ \<Rightarrow> ([], Inl TypeError))
               else ([], Inr \<lparr> embeds = [embed'], files = [] \<rparr>)))"

subsection \<open>The dispatcher\<close>

text \<open>The \<^verbatim>\<open>catch\<close> block of lines 184 to 187.\<close>

definition catch_block :: "string \<Rightarrow> js_error \<Rightarrow> 'n run" where
  "catch_block u e =
     ([ConsoleError [Str (''Error processing notification or sending to Discord for '' @ u @ '':''), Err e]],
      Responded 500 (ErrorBody ''Internal Server Error: Failed to send Discord notification''))"

text \<open>Effects first, then the rest of the run.\<close>

definition after :: "'n effect list \<Rightarrow> 'n run \<Rightarrow> 'n run" where
  "after es r = (es @ fst r, snd r)"

text \<open>The \<^verbatim>\<open>try\<close> block of lines 141 to 183.\<close>

definition dispatch ::
  "config \<Rightarrow> 'n world \<Rightarrow> string \<Rightarrow> string \<Rightarrow> 'n json option \<Rightarrow> 'n json option
     \<Rightarrow> uploaded_file option \<Rightarrow> 'n run" where
  "dispatch cfg w u a achievementDescription iconSource uploadedFile =
     after [ChannelsFetch (TARGET_CHANNEL_ID cfg)]
       (case channels_fetch w (TARGET_CHANNEL_ID cfg) of
          Inl e \<Rightarrow> catch_block u e
        | Inr channel \<Rightarrow>
            if channel \<noteq> Some TextChannel then
              ([], Responded 500
                     (ErrorBody ''Internal Server Error: Could not find or use target Discord channel''))
            else
              (case build_message w u a achievementDescription iconSource uploadedFile of
                 (logs, Inl e) \<Rightarrow> after logs (catch_block u e)
               | (logs, Inr msg) \<Rightarrow>
                   after (logs @ [ChannelSend msg])
                     (case channel_send w msg of
                        Some e \<Rightarrow> catch_block u e
                      | None \<Rightarrow>
                          ([ConsoleLog [Str (''Successfully sent notification for '' @ u
                                @ '' to Discord channel '' @ TARGET_CHANNEL_ID cfg)]],
                           Responded 200 (MessageBody ''Notification sent successfully'')))))"

subsection \<open>The handler and the route\<close>

text \<open>
  Lines 111 to 119: \<open>Inl\<close> is the message of the error thrown inside the \<^verbatim>\<open>try\<close>
  block. \<^verbatim>\<open>!req.body.jsonData\<close> holds for an absent field and for an empty one.
\<close>

definition parse_jsonData :: "'n world \<Rightarrow> string option \<Rightarrow> string + 'n json" where
  "parse_jsonData w jsonData =
     (case jsonData of
        None \<Rightarrow> Inl ''Missing jsonData field in request body.''
      | Some s \<Rightarrow>
          if s = [] then Inl ''Missing jsonData field in request body.''
          else JSON_parse w s)"

text \<open>Lines 134 to 138.\<close>

definition log_file :: "uploaded_file option \<Rightarrow> 'n effect" where
  "log_file uploadedFile =
     (case uploadedFile of
        Some f \<Rightarrow>
          ConsoleLog [Str (''Received file: ''
            @ (case originalname f of None \<Rightarrow> ''undefined'' | Some n \<Rightarrow> n)
            @ '', size: '' @ decimal (size_bytes f) @ '', type: '' @ mimetype f)]
      | None \<Rightarrow> ConsoleLog [Str ''No file uploaded with this request.''])"

text \<open>
  The handler, lines 103 to 188. Destructuring \<^verbatim>\<open>null\<close> (line 124) and a
  conversion to a string that throws (line 133) happen outside both \<^verbatim>\<open>try\<close>
  blocks. When line 133 has converted \<^verbatim>\<open>userName\<close> and \<^verbatim>\<open>achievementName\<close>, the
  later template literals convert the same values to the same strings.
\<close>

definition handler ::
  "config \<Rightarrow> server_state \<Rightarrow> 'n world \<Rightarrow> string option \<Rightarrow> uploaded_file option \<Rightarrow> 'n run" where
  "handler cfg st w jsonData uploadedFile =
     (if \<not> discordReady st then
        ([ConsoleError [Str ''Discord client not ready, cannot send notification yet.'']],
         Responded 503 (ErrorBody ''Service Unavailable: Discord client not ready''))
      else
        (case parse_jsonData w jsonData of
           Inl m \<Rightarrow>
             ([ConsoleWarn [Str ''Failed to parse jsonData:'', Str m, Str ''Body:'', ReqBody jsonData]],
              Responded 400 (ErrorBody ''Bad Request: Invalid or missing jsonData field.''))
         | Inr payload \<Rightarrow>
             if payload = JNull then ([], Uncaught TypeError)
             else
               (let userName = get_property payload ''userName'';
                    achievementName = get_property payload ''achievementName'';
                    achievementDescription = get_property payload ''achievementDescription'';
                    iconSource = get_property payload ''iconSource''
                in
                  if \<not> truthy (Number_isFalsy w) userName \<or> \<not> truthy (Number_isFalsy w) achievementName then
                    ([ConsoleWarn [Str ''Received invalid payload:'', Val payload]],
                     Responded 400 (ErrorBody ''Bad Request: Missing userName or achievementName''))
                  else
                    (case interpolate (Number_toString w) userName of
                       None \<Rightarrow> ([], Uncaught TypeError)
                     | Some u \<Rightarrow>
                         (case interpolate (Number_toString w) achievementName of
                            None \<Rightarrow> ([], Uncaught TypeError)
                          | Some a \<Rightarrow>
                              after
                                [ConsoleLog [Str (''Received achievement notification for '' @ u @ '' - '' @ a)],
                                 log_file uploadedFile]
                                (dispatch cfg w u a achievementDescription iconSource uploadedFile))))))"

text \<open>
  \<^verbatim>\<open>app.post('/notify-achievement', authenticateRequest, upload.single(...), handler)\<close>:
  the stages in the order of the source.
\<close>

definition route :: "config \<Rightarrow> server_state \<Rightarrow> 'n world \<Rightarrow> request \<Rightarrow> 'n run" where
  "route cfg st w req =
     (case authenticateRequest cfg (authorization req) of
        Reject warning status b \<Rightarrow> ([ConsoleWarn [Str warning]], Responded status b)
      | Next \<Rightarrow>
          (case multipart req of
             UploadError \<Rightarrow> ([], UploadRejected)
           | Uploaded jsonData uploadedFile \<Rightarrow> handler cfg st w jsonData uploadedFile))"

text \<open>
  Readings of a run: the status of the response, the calls to the chat service,
  the messages handed to \<^verbatim>\<open>channel.send\<close>.
\<close>

definition status_of :: "'n run \<Rightarrow> nat option" where
  "status_of r = (case snd r of Responded n b \<Rightarrow> Some n | _ \<Rightarrow> None)"

fun is_chat_call :: "'n effect \<Rightarrow> bool" where
  "is_chat_call (ChannelsFetch c) = True"
| "is_chat_call (ChannelSend m) = True"
| "is_chat_call _ = False"

definition chat_calls :: "'n run \<Rightarrow> 'n effect list" where
  "chat_calls r = filter is_chat_call (fst r)"

fun sent_of :: "'n effect \<Rightarrow> 'n outbound option" where
  "sent_of (ChannelSend m) = Some m"
| "sent_of _ = None"

definition sent_messages :: "'n run \<Rightarrow> 'n outbound list" where
  "sent_messages r = List.map_filter sent_of (fst r)"

subsection \<open>Concrete requests\<close>

text \<open>A configuration, an environment and a few requests on which the route is run below.\<close>

definition example_config :: config where
  "example_config = \<lparr> EXPECTED_SECRET = ''hunter2'', TARGET_CHANNEL_ID = ''42'' \<rparr>"

definition ready_state :: server_state where
  "ready_state = on_ready initial_state"

definition alice_text :: string where
  "alice_text = ''{\"userName\":\"Alice\",\"achievementName\":\"Dragon Slayer\"}''"

definition alice :: "nat json" where
  "alice = JObject [(''userName'', JString ''Alice''), (''achievementName'', JString ''Dragon Slayer'')]"

definition alice_icon_text :: string where
  "alice_icon_text = ''{\"userName\":\"Alice\",\"achievementName\":\"Dragon Slayer\",\"achievementDescription\":\"Slay it\",\"iconSource\":\"https://example.org/d.png\"}''"

definition alice_icon :: "nat json" where
  "alice_icon = JObject [(''userName'', JString ''Alice''), (''achievementName'', JString ''Dragon Slayer''),
     (''achievementDescription'', JString ''Slay it''), (''iconSource'', JString ''https://example.org/d.png'')]"

definition alice_ftp_text :: string where
  "alice_ftp_text = ''{\"userName\":\"Alice\",\"achievementName\":\"Dragon Slayer\",\"iconSource\":\"ftp://evil\"}''"

definition alice_ftp :: "nat json" where
  "alice_ftp = JObject [(''userName'', JString ''Alice''), (''achievementName'', JString ''Dragon Slayer''),
     (''iconSource'', JString ''ftp://evil'')]"

definition bob_text :: string where
  "bob_text = ''{\"userName\":\"Bob\",\"achievementName\":\"Firestarter\"}''"

definition bob :: "nat json" where
  "bob = JObject [(''userName'', JString ''Bob''), (''achievementName'', JString ''Firestarter'')]"

text \<open>The environment parses the texts above, \<^verbatim>\<open>{}\<close> and \<^verbatim>\<open>null\<close>, and rejects every other text.\<close>

definition example_parse :: "string \<Rightarrow> string + nat json" where
  "example_parse s =
     (if s = alice_text then Inr alice
      else if s = alice_icon_text then Inr alice_icon
      else if s = alice_ftp_text then Inr alice_ftp
      else if s = bob_text then Inr bob
      else if s = ''{}'' then Inr (JObject [])
      else if s = ''null'' then Inr JNull
      else Inl ''Unexpected token'')"

text \<open>
  The builders of the environment: a description of more than 4096 characters is
  refused; a field is accepted when its value is a string of 1 to 1024
  characters; a URL is accepted when it has no space, begins with \<^verbatim>\<open>http://\<close>,
  \<^verbatim>\<open>https://\<close> or \<^verbatim>\<open>attachment://\<close> and does not end there.
\<close>

definition example_setDescription :: "string \<Rightarrow> js_error option" where
  "example_setDescription s =
     (if drop 4096 s = [] then None else Some (Upstream ''Invalid string length''))"

definition example_addFields :: "string \<times> nat json \<Rightarrow> js_error option" where
  "example_addFields f =
     (case snd f of
        JString v \<Rightarrow>
          if v \<noteq> [] \<and> drop 1024 v = [] then None else Some (Upstream ''Invalid string length'')
      | _ \<Rightarrow> Some (Upstream ''Expected a string primitive''))"

definition example_url :: "string \<Rightarrow> js_error option" where
  "example_url s =
     (if CHR '' '' \<notin> set s
         \<and> (startsWith s ''http://'' \<and> drop 7 s \<noteq> []
            \<or> startsWith s ''https://'' \<and> drop 8 s \<noteq> []
            \<or> startsWith s ''attachment://'' \<and> drop 13 s \<noteq> [])
      then None else Some (Upstream ''Invalid URL''))"

definition example_world :: "nat world" where
  "example_world =
     \<lparr> JSON_parse = example_parse,
       Number_isFalsy = (\<lambda>n. n = 0),
       Number_toString = decimal,
       Date_now = 86400,
       setDescription = example_setDescription,
       addFields = example_addFields,
       setImage = example_url,
       setThumbnail = example_url,
       channels_fetch = (\<lambda>c. if c = ''42'' then Inr (Some TextChannel) else Inr None),
       channel_send = (\<lambda>m. None) \<rparr>"

definition trophy :: uploaded_file where
  "trophy = \<lparr> originalname = Some ''trophy.png'', buffer = [137, 80, 78, 71],
     size_bytes = 2048, mimetype = ''image/png'' \<rparr>"

definition authorized :: "upload \<Rightarrow> request" where
  "authorized b = \<lparr> authorization = Some ''Bearer hunter2'', multipart = b \<rparr>"

text \<open>A file without a name, and environments in which the chat service fails.\<close>

definition unnamed_file :: uploaded_file where
  "unnamed_file = trophy \<lparr> originalname := None \<rparr>"

definition fetch_throws_world :: "nat world" where
  "fetch_throws_world = example_world \<lparr> channels_fetch := (\<lambda>c. Inl (Upstream ''Missing Access'')) \<rparr>"

definition deleted_channel_world :: "nat world" where
  "deleted_channel_world = example_world \<lparr> channels_fetch := (\<lambda>c. Inr None) \<rparr>"

definition send_throws_world :: "nat world" where
  "send_throws_world = example_world \<lparr> channel_send := (\<lambda>m. Some (Upstream ''Missing Permissions'')) \<rparr>"

section \<open>Properties of the route\<close>

subsection \<open>Runs and their readings\<close>

lemma snd_after: "snd (after es r) = snd r"
  by (simp add: after_def)

lemma fst_after: "fst (after es r) = es @ fst r"
  by (simp add: after_def)

lemma status_of_after: "status_of (after es r) = status_of r"
  by (simp add: status_of_def snd_after)

lemma sent_messages_after: "sent_messages (after es r) = List.map_filter sent_of es @ sent_messages r"
  by (simp add: sent_messages_def fst_after map_filter_def)

lemma sent_messages_catch_block: "sent_messages (catch_block u e) = []"
  by (simp add: sent_messages_def catch_block_def map_filter_def)

lemma build_message_logs:
  assumes "build_message w u a d i f = (logs, r)"
  shows "List.map_filter sent_of logs = [] \<and> filter is_chat_call logs = []"
  using assms
  by (auto simp: build_message_def Let_def map_filter_def
           split: sum.splits option.splits if_splits json.splits)

lemma sent_messages_Nil: "sent_messages ([], x) = []"
  by (simp add: sent_messages_def map_filter_def)

lemma sent_messages_console:
  "sent_messages ([ConsoleLog xs], x) = []" "sent_messages ([ConsoleWarn xs], x) = []"
  "sent_messages ([ConsoleError xs], x) = []"
  by (simp_all add: sent_messages_def map_filter_def)

lemma map_filter_sent_of_ChannelsFetch: "List.map_filter sent_of [ChannelsFetch c] = []"
  by (simp add: map_filter_def)

lemma map_filter_sent_of_append:
  "List.map_filter sent_of (xs @ ys) = List.map_filter sent_of xs @ List.map_filter sent_of ys"
  by (simp add: map_filter_def)

lemma map_filter_sent_of_ChannelSend: "List.map_filter sent_of [ChannelSend m] = [m]"
  by (simp add: map_filter_def)

lemmas sent_simps =
  sent_messages_after sent_messages_catch_block sent_messages_Nil sent_messages_console
  map_filter_sent_of_ChannelsFetch map_filter_sent_of_append map_filter_sent_of_ChannelSend

lemma dispatch_sent:
  assumes "m \<in> set (sent_messages (dispatch cfg w u a d i f))"
  shows "\<exists>logs. channels_fetch w (TARGET_CHANNEL_ID cfg) = Inr (Some TextChannel)
           \<and> build_message w u a d i f = (logs, Inr m)"
proof -
  obtain ch where ch: "channels_fetch w (TARGET_CHANNEL_ID cfg) = Inr ch"
    using assms
    by (cases "channels_fetch w (TARGET_CHANNEL_ID cfg)") (auto simp: dispatch_def sent_simps)
  have tc: "ch = Some TextChannel"
    using assms ch by (auto simp: dispatch_def sent_simps split: if_splits)
  obtain logs r where b: "build_message w u a d i f = (logs, r)"
    by (cases "build_message w u a d i f")
  note q = build_message_logs [OF b]
  obtain m' where r: "r = Inr m'"
    using assms ch tc b q
    by (cases r) (auto simp: dispatch_def sent_simps)
  have "sent_messages (dispatch cfg w u a d i f) = [m']"
    using ch tc b r q
    by (simp add: dispatch_def sent_simps split: option.splits)
  with assms b r ch tc show ?thesis by simp
qed

lemma status_of_Responded: "status_of (es, Responded n b) = Some n"
  by (simp add: status_of_def)

lemma status_of_catch_block: "status_of (catch_block u e) = Some 500"
  by (simp add: status_of_def catch_block_def)

lemma dispatch_status:
  "status_of (dispatch cfg w u a d i f) = Some 200 \<or> status_of (dispatch cfg w u a d i f) = Some 500"
  by (simp add: dispatch_def status_of_after status_of_Responded status_of_catch_block
           split: sum.splits option.splits prod.splits)

lemma dispatch_not_200:
  "status_of (dispatch cfg w u a d i f) \<noteq> Some 200 \<Longrightarrow> status_of (dispatch cfg w u a d i f) = Some 500"
  using dispatch_status [of cfg w u a d i f] by blast

lemma chat_calls_no_effects: "chat_calls ([], x) = []"
  by (simp add: chat_calls_def)

lemma chat_calls_console:
  "chat_calls ([ConsoleWarn xs], x) = []" "chat_calls ([ConsoleError xs], x) = []"
  by (simp_all add: chat_calls_def)

lemma log_file_quiet: "sent_of (log_file f) = None" "\<not> is_chat_call (log_file f)"
  by (simp_all add: log_file_def split: option.splits)

lemma handler_chat_calls:
  assumes "status_of (handler cfg st w jd f) \<noteq> Some 200"
    and "status_of (handler cfg st w jd f) \<noteq> Some 500"
  shows "chat_calls (handler cfg st w jd f) = []"
  using assms
  by (auto simp: handler_def Let_def status_of_after chat_calls_no_effects chat_calls_console
           split: if_splits sum.splits option.splits dest: dispatch_not_200)

lemma route_chat_calls:
  assumes "status_of (route cfg st w req) \<noteq> Some 200"
    and "status_of (route cfg st w req) \<noteq> Some 500"
  shows "chat_calls (route cfg st w req) = []"
  using assms handler_chat_calls [of cfg st w]
  by (auto simp: route_def chat_calls_no_effects chat_calls_console
           split: gate.splits upload.splits)

lemma handler_sent:
  assumes "m \<in> set (sent_messages (handler cfg st w jd f))"
  shows "\<exists>payload u a logs.
           discordReady st \<and> parse_jsonData w jd = Inr payload \<and> payload \<noteq> JNull
         \<and> interpolate (Number_toString w) (get_property payload ''userName'') = Some u
         \<and> interpolate (Number_toString w) (get_property payload ''achievementName'') = Some a
         \<and> build_message w u a (get_property payload ''achievementDescription'')
              (get_property payload ''iconSource'') f = (logs, Inr m)"
  using assms
  by (auto simp: handler_def Let_def sent_simps map_filter_def log_file_quiet
           split: if_splits sum.splits option.splits dest!: dispatch_sent)

lemma route_sent:
  assumes "m \<in> set (sent_messages (route cfg st w req))"
  shows "\<exists>jd f. multipart req = Uploaded jd f \<and> m \<in> set (sent_messages (handler cfg st w jd f))"
  using assms
  by (auto simp: route_def sent_simps sent_messages_def map_filter_def
           split: gate.splits upload.splits)

lemma parse_jsonData_Some: "parse_jsonData w (Some s) = Inr p \<Longrightarrow> JSON_parse w s = Inr p"
  by (simp add: parse_jsonData_def split: if_splits)

subsection \<open>The credential gate\<close>

lemma split_str_head: "\<exists>ps. split_str t c = takeWhile (\<lambda>x. x \<noteq> c) t # ps"
  by (induction t) (auto split: list.splits)

lemma providedSecret_Bearer:
  "providedSecret (''Bearer '' @ t) = Some (takeWhile (\<lambda>x. x \<noteq> CHR '' '') t)"
proof -
  obtain ps where "split_str t CHR '' '' = takeWhile (\<lambda>x. x \<noteq> CHR '' '') t # ps"
    using split_str_head by blast
  then show ?thesis
    by (simp add: providedSecret_def index_def)
qed

lemma startsWith_iff: "startsWith s p \<longleftrightarrow> (\<exists>t. s = p @ t)"
  unfolding startsWith_def by (metis append_eq_conv_conj)



lemma authenticateRequest_Bearer:
  "authenticateRequest cfg (Some (''Bearer '' @ t)) =
     (if takeWhile (\<lambda>c. c \<noteq> CHR '' '') t = EXPECTED_SECRET cfg then Next
      else Reject ''Authentication failed: Invalid secret.'' 403 (ErrorBody ''Forbidden: Invalid secret''))"
proof -
  have 1: "startsWith (''Bearer '' @ t) ''Bearer ''" "''Bearer '' @ t \<noteq> []"
    by (simp_all add: startsWith_def)
  show ?thesis
    by (simp only: authenticateRequest_def option.case providedSecret_Bearer 1) simp
qed

lemma authenticateRequest_malformed:
  assumes "\<nexists>t. h = Some (''Bearer '' @ t)"
  shows "authenticateRequest cfg h =
           Reject ''Authentication failed: Missing or invalid Authorization header.''
             401 (ErrorBody ''Unauthorized: Missing authorization header'')"
proof (cases h)
  case None
  then show ?thesis by (simp add: authenticateRequest_def)
next
  case (Some s)
  with assms have "\<not> startsWith s ''Bearer ''" by (simp add: startsWith_iff)
  with Some show ?thesis by (simp add: authenticateRequest_def)
qed

lemma route_Reject:
  "authenticateRequest cfg (authorization req) = Reject l n b
     \<Longrightarrow> route cfg st w req = ([ConsoleWarn [Str l]], Responded n b)"
  by (simp add: route_def)

lemma route_Next:
  "authenticateRequest cfg (authorization req) = Next
     \<Longrightarrow> route cfg st w req =
          (case multipart req of UploadError \<Rightarrow> ([], UploadRejected)
           | Uploaded jd f \<Rightarrow> handler cfg st w jd f)"
  by (simp add: route_def)

text \<open>
  Claim C6. A header is of the form \<^verbatim>\<open>Bearer <token>\<close> when it is \<^verbatim>\<open>Bearer\<close>, a space and
  any text; its token is that text up to the next space (element 1 of the split
  on spaces). A request whose header is missing or not of this form is answered
  with 401; a request whose header is of this form with a token different from
  the configured secret is answered with 403; and the gate lets a request pass
  exactly when its header is of this form and the token equals the secret. The
  two rejections have different statuses and different bodies.
\<close>

theorem credential_gate:
  "((\<nexists>t. authorization req = Some (''Bearer '' @ t))
      \<longrightarrow> snd (route cfg st w req) = Responded 401 (ErrorBody ''Unauthorized: Missing authorization header''))
   \<and> (\<forall>t. authorization req = Some (''Bearer '' @ t)
          \<and> takeWhile (\<lambda>c. c \<noteq> CHR '' '') t \<noteq> EXPECTED_SECRET cfg
      \<longrightarrow> snd (route cfg st w req) = Responded 403 (ErrorBody ''Forbidden: Invalid secret''))
   \<and> (authenticateRequest cfg (authorization req) = Next
        \<longleftrightarrow> (\<exists>t. authorization req = Some (''Bearer '' @ t)
               \<and> takeWhile (\<lambda>c. c \<noteq> CHR '' '') t = EXPECTED_SECRET cfg))"
proof (cases "\<exists>t. authorization req = Some (''Bearer '' @ t)")
  case False
  then have "authenticateRequest cfg (authorization req) =
           Reject ''Authentication failed: Missing or invalid Authorization header.''
             401 (ErrorBody ''Unauthorized: Missing authorization header'')"
    by (rule authenticateRequest_malformed)
  with False show ?thesis by (simp add: route_Reject)
next
  case True
  then obtain t where t: "authorization req = Some (''Bearer '' @ t)" by blast
  show ?thesis
  proof (cases "takeWhile (\<lambda>c. c \<noteq> CHR '' '') t = EXPECTED_SECRET cfg")
    case True
    then have "authenticateRequest cfg (authorization req) = Next"
      unfolding t authenticateRequest_Bearer by simp
    with t True show ?thesis by auto
  next
    case False
    then have r: "authenticateRequest cfg (authorization req) =
        Reject ''Authentication failed: Invalid secret.'' 403 (ErrorBody ''Forbidden: Invalid secret'')"
      unfolding t authenticateRequest_Bearer by simp
    have "snd (route cfg st w req) = Responded 403 (ErrorBody ''Forbidden: Invalid secret'')"
      by (simp add: route_Reject [OF r])
    with t False r show ?thesis by auto
  qed
qed


theorem credential_gate_witness:
  "snd (route example_config ready_state example_world \<lparr> authorization = None, multipart = Uploaded (Some alice_text) None \<rparr>)
     = Responded 401 (ErrorBody ''Unauthorized: Missing authorization header'')
   \<and> snd (route example_config ready_state example_world \<lparr> authorization = Some ''Basic hunter2'', multipart = Uploaded (Some alice_text) None \<rparr>)
     = Responded 401 (ErrorBody ''Unauthorized: Missing authorization header'')
   \<and> snd (route example_config ready_state example_world \<lparr> authorization = Some ''Bearer hunter3'', multipart = Uploaded (Some alice_text) None \<rparr>)
     = Responded 403 (ErrorBody ''Forbidden: Invalid secret'')
   \<and> authenticateRequest example_config (authorization (authorized (Uploaded (Some alice_text) None))) = Next"
proof -
  let ?b = "Uploaded (Some alice_text) None"
  have "\<nexists>t. authorization \<lparr> authorization = None, multipart = ?b \<rparr> = Some (''Bearer '' @ t)"
    by simp
  then have 1: "snd (route example_config ready_state example_world \<lparr> authorization = None, multipart = ?b \<rparr>)
     = Responded 401 (ErrorBody ''Unauthorized: Missing authorization header'')"
    using credential_gate [of "\<lparr> authorization = None, multipart = ?b \<rparr>" example_config ready_state example_world]
    by blast
  have "\<nexists>t. authorization \<lparr> authorization = Some ''Basic hunter2'', multipart = ?b \<rparr> = Some (''Bearer '' @ t)"
    by simp
  then have 2: "snd (route example_config ready_state example_world \<lparr> authorization = Some ''Basic hunter2'', multipart = ?b \<rparr>)
     = Responded 401 (ErrorBody ''Unauthorized: Missing authorization header'')"
    using credential_gate [of "\<lparr> authorization = Some ''Basic hunter2'', multipart = ?b \<rparr>" example_config ready_state example_world]
    by blast
  have "authorization \<lparr> authorization = Some ''Bearer hunter3'', multipart = ?b \<rparr> = Some (''Bearer '' @ ''hunter3'')
      \<and> takeWhile (\<lambda>c. c \<noteq> CHR '' '') ''hunter3'' \<noteq> EXPECTED_SECRET example_config"
    by (simp add: example_config_def)
  then have 3: "snd (route example_config ready_state example_world \<lparr> authorization = Some ''Bearer hunter3'', multipart = ?b \<rparr>)
     = Responded 403 (ErrorBody ''Forbidden: Invalid secret'')"
    using credential_gate [of "\<lparr> authorization = Some ''Bearer hunter3'', multipart = ?b \<rparr>" example_config ready_state example_world]
    by blast
  have "authorization (authorized ?b) = Some (''Bearer '' @ ''hunter2'')
      \<and> takeWhile (\<lambda>c. c \<noteq> CHR '' '') ''hunter2'' = EXPECTED_SECRET example_config"
    by (simp add: example_config_def authorized_def)
  then have 4: "authenticateRequest example_config (authorization (authorized ?b)) = Next"
    using credential_gate [of "authorized ?b" example_config ready_state example_world]
    by blast
  from 1 2 3 4 show ?thesis by blast
qed

lemma authenticateRequest_status:
  "authenticateRequest cfg h = Reject l n b \<Longrightarrow> n = 401 \<or> n = 403"
  by (auto simp: authenticateRequest_def split: option.splits if_splits)

subsection \<open>Concrete runs\<close>

lemma run_missing_header:
  "route example_config st example_world \<lparr> authorization = None, multipart = b \<rparr> =
     ([ConsoleWarn [Str ''Authentication failed: Missing or invalid Authorization header.'']],
      Responded 401 (ErrorBody ''Unauthorized: Missing authorization header''))"
  by (simp add: route_def authenticateRequest_def)

lemma run_wrong_secret:
  "route example_config st example_world \<lparr> authorization = Some ''Bearer hunter3'', multipart = b \<rparr> =
     ([ConsoleWarn [Str ''Authentication failed: Invalid secret.'']],
      Responded 403 (ErrorBody ''Forbidden: Invalid secret''))"
  by (simp add: route_def authenticateRequest_def providedSecret_def index_def startsWith_def
        example_config_def)

lemma authorized_passes: "authenticateRequest example_config (authorization (authorized b)) = Next"
  by (simp add: authenticateRequest_def providedSecret_def index_def startsWith_def
        example_config_def authorized_def)

lemma run_not_ready:
  "route example_config initial_state example_world (authorized (Uploaded jd f)) =
     ([ConsoleError [Str ''Discord client not ready, cannot send notification yet.'']],
      Responded 503 (ErrorBody ''Service Unavailable: Discord client not ready''))"
  by (simp add: route_Next authorized_passes) (simp add: authorized_def handler_def initial_state_def)

lemma run_missing_jsonData:
  "route example_config ready_state example_world (authorized (Uploaded None f)) =
     ([ConsoleWarn [Str ''Failed to parse jsonData:'', Str ''Missing jsonData field in request body.'',
         Str ''Body:'', ReqBody None]],
      Responded 400 (ErrorBody ''Bad Request: Invalid or missing jsonData field.''))"
  by (simp add: route_Next authorized_passes)
     (simp add: authorized_def handler_def ready_state_def initial_state_def on_ready_def parse_jsonData_def)

lemma run_empty_object:
  "route example_config ready_state example_world (authorized (Uploaded (Some ''{}'') f)) =
     ([ConsoleWarn [Str ''Received invalid payload:'', Val (JObject [])]],
      Responded 400 (ErrorBody ''Bad Request: Missing userName or achievementName''))"
  by (simp add: route_Next authorized_passes)
     (simp add: authorized_def handler_def ready_state_def initial_state_def on_ready_def
        parse_jsonData_def example_world_def example_parse_def alice_text_def alice_icon_text_def
        alice_ftp_text_def bob_text_def)

text \<open>
  A payload that parses to \<^verbatim>\<open>null\<close>: the destructuring of line 124 throws outside
  both \<^verbatim>\<open>try\<close> blocks, and the handler writes no response.
\<close>

lemma run_null:
  "route example_config ready_state example_world (authorized (Uploaded (Some ''null'') f)) =
     ([], Uncaught TypeError)"
  by (simp add: route_Next authorized_passes)
     (simp add: authorized_def handler_def ready_state_def initial_state_def on_ready_def
        parse_jsonData_def example_world_def example_parse_def alice_text_def alice_icon_text_def
        alice_ftp_text_def bob_text_def)


lemma takeWhile_until: "c \<notin> set s \<Longrightarrow> takeWhile (\<lambda>x. x \<noteq> c) (s @ c # r) = s"
  by (induction s) auto

subsection \<open>The gate reads one segment of the header\<close>

text \<open>
  Claim C9. The gate compares element 1 of the header split on spaces, and
  nothing after it: every header that begins with \<^verbatim>\<open>Bearer\<close> and a space and whose
  element 1 is the configured secret passes. In particular, when the secret
  contains no space, the header made of \<^verbatim>\<open>Bearer\<close>, a space, the secret, a space and any
  further text passes, and the route goes on to the handler.
\<close>

theorem second_segment_only:
  "(\<forall>h. startsWith h ''Bearer '' \<and> index (split_str h CHR '' '') 1 = Some (EXPECTED_SECRET cfg)
        \<longrightarrow> authenticateRequest cfg (Some h) = Next)
   \<and> (CHR '' '' \<notin> set (EXPECTED_SECRET cfg)
        \<longrightarrow> (\<forall>extra jd f.
              authenticateRequest cfg (Some (''Bearer '' @ EXPECTED_SECRET cfg @ '' '' @ extra)) = Next
            \<and> route cfg st w \<lparr> authorization = Some (''Bearer '' @ EXPECTED_SECRET cfg @ '' '' @ extra),
                               multipart = Uploaded jd f \<rparr> = handler cfg st w jd f))"
proof (intro conjI allI impI)
  fix h
  assume h: "startsWith h ''Bearer '' \<and> index (split_str h CHR '' '') 1 = Some (EXPECTED_SECRET cfg)"
  then have "h \<noteq> []" by (auto simp: startsWith_def)
  with h show "authenticateRequest cfg (Some h) = Next"
    by (simp add: authenticateRequest_def providedSecret_def)
next
  fix extra :: string and jd f
  assume "CHR '' '' \<notin> set (EXPECTED_SECRET cfg)"
  then have "takeWhile (\<lambda>c. c \<noteq> CHR '' '') (EXPECTED_SECRET cfg @ CHR '' '' # extra) = EXPECTED_SECRET cfg"
    by (rule takeWhile_until)
  then have tw: "takeWhile (\<lambda>c. c \<noteq> CHR '' '') (EXPECTED_SECRET cfg @ '' '' @ extra) = EXPECTED_SECRET cfg"
    by simp
  show n: "authenticateRequest cfg (Some (''Bearer '' @ EXPECTED_SECRET cfg @ '' '' @ extra)) = Next"
    by (simp only: authenticateRequest_Bearer tw) simp
  show "route cfg st w \<lparr> authorization = Some (''Bearer '' @ EXPECTED_SECRET cfg @ '' '' @ extra),
                               multipart = Uploaded jd f \<rparr> = handler cfg st w jd f"
    using n by (simp add: route_Next)
qed

theorem second_segment_only_witness:
  "CHR '' '' \<notin> set (EXPECTED_SECRET example_config)
   \<and> ''Bearer '' @ EXPECTED_SECRET example_config @ '' '' @ ''extra'' = ''Bearer hunter2 extra''
   \<and> authenticateRequest example_config (Some ''Bearer hunter2 extra'') = Next"
proof -
  have s: "CHR '' '' \<notin> set (EXPECTED_SECRET example_config)"
    by (simp add: example_config_def)
  have e: "''Bearer '' @ EXPECTED_SECRET example_config @ '' '' @ ''extra'' = ''Bearer hunter2 extra''"
    by (simp add: example_config_def)
  from s have "authenticateRequest example_config
                 (Some (''Bearer '' @ EXPECTED_SECRET example_config @ '' '' @ ''extra'')) = Next"
    using second_segment_only [of example_config ready_state example_world] by blast
  with s e show ?thesis by simp
qed

subsection \<open>Responses without a call to the chat service\<close>

text \<open>
  Claim C10. A run of the route that answers 401, 403, 503 or 400 contains no call
  to the chat service: neither \<^verbatim>\<open>channels.fetch\<close> nor \<^verbatim>\<open>channel.send\<close>.
\<close>

theorem failures_leave_chat_untouched:
  assumes "status_of (route cfg st w req) \<in> {Some 401, Some 403, Some 503, Some 400}"
  shows "chat_calls (route cfg st w req) = []"
proof (rule route_chat_calls)
  show "status_of (route cfg st w req) \<noteq> Some 200" using assms by auto
  show "status_of (route cfg st w req) \<noteq> Some 500" using assms by auto
qed

theorem failures_leave_chat_untouched_witness:
  "status_of (route example_config ready_state example_world \<lparr> authorization = None, multipart = Uploaded (Some alice_text) None \<rparr>) = Some 401
   \<and> chat_calls (route example_config ready_state example_world \<lparr> authorization = None, multipart = Uploaded (Some alice_text) None \<rparr>) = []
   \<and> status_of (route example_config ready_state example_world \<lparr> authorization = Some ''Bearer hunter3'', multipart = Uploaded (Some alice_text) None \<rparr>) = Some 403
   \<and> chat_calls (route example_config ready_state example_world \<lparr> authorization = Some ''Bearer hunter3'', multipart = Uploaded (Some alice_text) None \<rparr>) = []
   \<and> status_of (route example_config initial_state example_world (authorized (Uploaded (Some alice_text) None))) = Some 503
   \<and> chat_calls (route example_config initial_state example_world (authorized (Uploaded (Some alice_text) None))) = []
   \<and> status_of (route example_config ready_state example_world (authorized (Uploaded (Some ''{}'') None))) = Some 400
   \<and> chat_calls (route example_config ready_state example_world (authorized (Uploaded (Some ''{}'') None))) = []"
proof -
  have 1: "status_of (route example_config ready_state example_world \<lparr> authorization = None, multipart = Uploaded (Some alice_text) None \<rparr>) = Some 401"
    by (simp add: run_missing_header status_of_Responded)
  have 2: "status_of (route example_config ready_state example_world \<lparr> authorization = Some ''Bearer hunter3'', multipart = Uploaded (Some alice_text) None \<rparr>) = Some 403"
    by (simp add: run_wrong_secret status_of_Responded)
  have 3: "status_of (route example_config initial_state example_world (authorized (Uploaded (Some alice_text) None))) = Some 503"
    by (simp add: run_not_ready status_of_Responded)
  have 4: "status_of (route example_config ready_state example_world (authorized (Uploaded (Some ''{}'') None))) = Some 400"
    by (simp add: run_empty_object status_of_Responded)
  from 1 have c1: "chat_calls (route example_config ready_state example_world \<lparr> authorization = None, multipart = Uploaded (Some alice_text) None \<rparr>) = []"
    by (intro failures_leave_chat_untouched) simp
  from 2 have c2: "chat_calls (route example_config ready_state example_world \<lparr> authorization = Some ''Bearer hunter3'', multipart = Uploaded (Some alice_text) None \<rparr>) = []"
    by (intro failures_leave_chat_untouched) simp
  from 3 have c3: "chat_calls (route example_config initial_state example_world (authorized (Uploaded (Some alice_text) None))) = []"
    by (intro failures_leave_chat_untouched) simp
  from 4 have c4: "chat_calls (route example_config ready_state example_world (authorized (Uploaded (Some ''{}'') None))) = []"
    by (intro failures_leave_chat_untouched) simp
  from 1 c1 2 c2 3 c3 4 c4 show ?thesis by blast
qed

subsection \<open>The readiness flag\<close>

text \<open>
  Claim C4, as amended. While the flag \<^verbatim>\<open>discordReady\<close> is false, no run of the route
  calls the chat service, and every request that has passed the credential gate
  and the upload middleware is answered with 503, whatever its payload: the run
  is the one \<^verbatim>\<open>console.error\<close> and the response, nothing is queued or awaited.
\<close>

theorem not_ready_is_503:
  assumes "\<not> discordReady st"
  shows "chat_calls (route cfg st w req) = []
       \<and> (authenticateRequest cfg (authorization req) = Next \<and> multipart req = Uploaded jsonData uploadedFile
            \<longrightarrow> route cfg st w req =
                  ([ConsoleError [Str ''Discord client not ready, cannot send notification yet.'']],
                   Responded 503 (ErrorBody ''Service Unavailable: Discord client not ready'')))"
proof
  have "status_of (handler cfg st w jd f) = Some 503" for jd f
    using assms by (simp add: handler_def status_of_Responded)
  then have "status_of (route cfg st w req) \<noteq> Some 200 \<and> status_of (route cfg st w req) \<noteq> Some 500"
    by (auto simp: route_def status_of_def split: gate.splits upload.splits dest: authenticateRequest_status)
  then show "chat_calls (route cfg st w req) = []"
    by (simp add: route_chat_calls)
next
  show "authenticateRequest cfg (authorization req) = Next \<and> multipart req = Uploaded jsonData uploadedFile
            \<longrightarrow> route cfg st w req =
                  ([ConsoleError [Str ''Discord client not ready, cannot send notification yet.'']],
                   Responded 503 (ErrorBody ''Service Unavailable: Discord client not ready''))"
    using assms by (simp add: route_Next handler_def)
qed


theorem not_ready_is_503_witness:
  "\<not> discordReady initial_state
   \<and> authenticateRequest example_config (authorization (authorized (Uploaded (Some alice_text) None))) = Next
   \<and> chat_calls (route example_config initial_state example_world (authorized (Uploaded (Some alice_text) None))) = []
   \<and> route example_config initial_state example_world (authorized (Uploaded (Some alice_text) None)) =
        ([ConsoleError [Str ''Discord client not ready, cannot send notification yet.'']],
         Responded 503 (ErrorBody ''Service Unavailable: Discord client not ready''))"
proof -
  have n: "\<not> discordReady initial_state" by (simp add: initial_state_def)
  have m: "multipart (authorized (Uploaded (Some alice_text) None)) = Uploaded (Some alice_text) None"
    by (simp add: authorized_def)
  show ?thesis
    using not_ready_is_503 [OF n, of example_config example_world
        "authorized (Uploaded (Some alice_text) None)" "Some alice_text" None]
      n m authorized_passes [of "Uploaded (Some alice_text) None"]
    by blast
qed

text \<open>
  Claim C4 as it is written speaks of every request. The gate runs before the
  handler: a request without a header is answered with 401 while the flag is
  false.
\<close>

theorem not_ready_without_header_is_401:
  "\<not> discordReady initial_state
   \<and> status_of (route example_config initial_state example_world
        \<lparr> authorization = None, multipart = Uploaded (Some alice_text) None \<rparr>) = Some 401
   \<and> status_of (route example_config initial_state example_world
        \<lparr> authorization = None, multipart = Uploaded (Some alice_text) None \<rparr>) \<noteq> Some 503"
  by (simp add: run_missing_header status_of_Responded initial_state_def)

subsection \<open>Payload validation\<close>

text \<open>
  Claim C5, as amended. For a request that has passed the credential gate and the
  upload middleware, handled while \<^verbatim>\<open>discordReady\<close> is true: when \<^verbatim>\<open>jsonData\<close> is absent
  or empty, or \<^verbatim>\<open>JSON.parse\<close> throws on it, or it parses to a value other than
  \<^verbatim>\<open>null\<close> whose \<^verbatim>\<open>userName\<close> or \<^verbatim>\<open>achievementName\<close> is not truthy (absent, or
  the empty string, among others), the response is 400 and the run contains no
  call to the chat service.
\<close>

theorem invalid_payload_is_400:
  assumes gate: "authenticateRequest cfg (authorization req) = Next"
    and up: "multipart req = Uploaded jsonData uploadedFile"
    and ready: "discordReady st"
    and bad: "jsonData = None \<or> jsonData = Some []
        \<or> (\<exists>s m. jsonData = Some s \<and> JSON_parse w s = Inl m)
        \<or> (\<exists>s payload. jsonData = Some s \<and> JSON_parse w s = Inr payload \<and> payload \<noteq> JNull
              \<and> (\<not> truthy (Number_isFalsy w) (get_property payload ''userName'')
                 \<or> \<not> truthy (Number_isFalsy w) (get_property payload ''achievementName'')))"
  shows "status_of (route cfg st w req) = Some 400 \<and> chat_calls (route cfg st w req) = []"
proof -
  have r: "route cfg st w req = handler cfg st w jsonData uploadedFile"
    using gate up by (simp add: route_Next)
  have "status_of (handler cfg st w jsonData uploadedFile) = Some 400"
    using ready bad
    by (auto simp: handler_def parse_jsonData_def status_of_Responded Let_def split: sum.splits if_splits)
  with r have s: "status_of (route cfg st w req) = Some 400" by simp
  then have "chat_calls (route cfg st w req) = []"
    by (intro route_chat_calls) simp_all
  with s show ?thesis by simp
qed

lemma ready_state_ready: "discordReady ready_state"
  by (simp add: ready_state_def on_ready_def)

lemma multipart_authorized: "multipart (authorized b) = b"
  by (simp add: authorized_def)

theorem invalid_payload_is_400_witness:
  "status_of (route example_config ready_state example_world (authorized (Uploaded None None))) = Some 400
   \<and> chat_calls (route example_config ready_state example_world (authorized (Uploaded None None))) = []
   \<and> JSON_parse example_world ''oops'' = Inl ''Unexpected token''
   \<and> status_of (route example_config ready_state example_world (authorized (Uploaded (Some ''oops'') None))) = Some 400
   \<and> JSON_parse example_world ''{}'' = Inr (JObject [])
   \<and> status_of (route example_config ready_state example_world (authorized (Uploaded (Some ''{}'') None))) = Some 400
   \<and> chat_calls (route example_config ready_state example_world (authorized (Uploaded (Some ''{}'') None))) = []"
proof -
  have p1: "JSON_parse example_world ''oops'' = Inl ''Unexpected token''"
    by (simp add: example_world_def example_parse_def alice_text_def alice_icon_text_def alice_ftp_text_def bob_text_def)
  have p2: "JSON_parse example_world ''{}'' = Inr (JObject [])"
    by (simp add: example_world_def example_parse_def alice_text_def alice_icon_text_def alice_ftp_text_def bob_text_def)
  have 1: "status_of (route example_config ready_state example_world (authorized (Uploaded None None))) = Some 400
       \<and> chat_calls (route example_config ready_state example_world (authorized (Uploaded None None))) = []"
    by (rule invalid_payload_is_400 [OF authorized_passes multipart_authorized ready_state_ready]) simp
  have 2: "status_of (route example_config ready_state example_world (authorized (Uploaded (Some ''oops'') None))) = Some 400
       \<and> chat_calls (route example_config ready_state example_world (authorized (Uploaded (Some ''oops'') None))) = []"
    by (rule invalid_payload_is_400 [OF authorized_passes multipart_authorized ready_state_ready])
       (simp add: p1)
  have 3: "status_of (route example_config ready_state example_world (authorized (Uploaded (Some ''{}'') None))) = Some 400
       \<and> chat_calls (route example_config ready_state example_world (authorized (Uploaded (Some ''{}'') None))) = []"
    by (rule invalid_payload_is_400 [OF authorized_passes multipart_authorized ready_state_ready])
       (simp add: p2)
  from 1 2 3 p1 p2 show ?thesis by blast
qed

text \<open>
  Claim C5 as it is written speaks of every authenticated request. The handler
  tests the readiness flag before it reads the payload: an authenticated request
  without \<^verbatim>\<open>jsonData\<close> is answered with 503 while the flag is false.
\<close>

theorem not_ready_missing_jsonData_is_503:
  "authenticateRequest example_config (authorization (authorized (Uploaded None None))) = Next
   \<and> status_of (route example_config initial_state example_world (authorized (Uploaded None None))) = Some 503
   \<and> status_of (route example_config initial_state example_world (authorized (Uploaded None None))) \<noteq> Some 400"
  by (simp add: run_not_ready status_of_Responded authorized_passes)

subsection \<open>Runs that reach the chat service\<close>

lemma route_authorized:
  "route example_config st w (authorized (Uploaded jd f)) = handler example_config st w jd f"
  by (simp add: route_Next authorized_passes multipart_authorized)

lemma parse_examples:
  "JSON_parse example_world alice_text = Inr alice"
  "JSON_parse example_world alice_icon_text = Inr alice_icon"
  "JSON_parse example_world alice_ftp_text = Inr alice_ftp"
  "JSON_parse example_world bob_text = Inr bob"
  by (simp_all add: example_world_def example_parse_def alice_text_def alice_icon_text_def
        alice_ftp_text_def bob_text_def)

lemma texts_not_empty:
  "alice_text \<noteq> []" "alice_icon_text \<noteq> []" "alice_ftp_text \<noteq> []" "bob_text \<noteq> []"
  by (simp_all add: alice_text_def alice_icon_text_def alice_ftp_text_def bob_text_def)

lemma example_world_sel:
  "Number_isFalsy example_world = (\<lambda>n. n = 0)"
  "Number_toString example_world = decimal"
  "Date_now example_world = 86400"
  "setDescription example_world = example_setDescription"
  "addFields example_world = example_addFields"
  "setImage example_world = example_url"
  "setThumbnail example_world = example_url"
  "channels_fetch example_world = (\<lambda>c. if c = ''42'' then Inr (Some TextChannel) else Inr None)"
  "channel_send example_world = (\<lambda>m. None)"
  by (simp_all add: example_world_def)

lemmas example_builders =
  example_setDescription_def example_addFields_def example_url_def startsWith_def

lemma run_alice:
  "route example_config ready_state example_world (authorized (Uploaded (Some alice_text) None)) =
     ([ConsoleLog [Str ''Received achievement notification for Alice - Dragon Slayer''],
       ConsoleLog [Str ''No file uploaded with this request.''],
       ChannelsFetch ''42'',
       ChannelSend \<lparr> embeds = [\<lparr> embed_color = ''#00FF00'', embed_title = TITLE,
           embed_description = ''**Alice** has unlocked the achievement: **Dragon Slayer**!'',
           embed_timestamp = 86400, embed_fields = [], embed_image = None,
           embed_thumbnail = None \<rparr>], files = [] \<rparr>,
       ConsoleLog [Str ''Successfully sent notification for Alice to Discord channel 42'']],
      Responded 200 (MessageBody ''Notification sent successfully''))"
  by (simp add: route_authorized handler_def ready_state_ready parse_jsonData_def texts_not_empty
        parse_examples)
     (simp add: alice_def example_world_sel interpolate_def log_file_def dispatch_def after_def
        build_message_def base_embed_def example_builders example_config_def)


lemma decimal_2048: "decimal 2048 = ''2048''"
  by code_simp

lemma run_alice_icon_trophy:
  "route example_config ready_state example_world (authorized (Uploaded (Some alice_icon_text) (Some trophy))) =
     ([ConsoleLog [Str ''Received achievement notification for Alice - Dragon Slayer''],
       ConsoleLog [Str ''Received file: trophy.png, size: 2048, type: image/png''],
       ChannelsFetch ''42'',
       ChannelSend \<lparr> embeds = [\<lparr> embed_color = ''#00FF00'', embed_title = TITLE,
           embed_description = ''**Alice** has unlocked the achievement: **Dragon Slayer**!'',
           embed_timestamp = 86400, embed_fields = [(''Description'', JString ''Slay it'')],
           embed_image = Some ''attachment://trophy.png'', embed_thumbnail = None \<rparr>],
         files = [\<lparr> attachment_buffer = [137, 80, 78, 71], attachment_name = ''trophy.png'' \<rparr>] \<rparr>,
       ConsoleLog [Str ''Successfully sent notification for Alice to Discord channel 42'']],
      Responded 200 (MessageBody ''Notification sent successfully''))"
  by (simp add: route_authorized handler_def ready_state_ready parse_jsonData_def texts_not_empty
        parse_examples)
     (simp add: alice_icon_def example_world_sel interpolate_def log_file_def dispatch_def after_def
        build_message_def base_embed_def example_builders attachment_for_def example_config_def trophy_def
        decimal_2048)

lemma run_alice_trophy:
  "route example_config ready_state example_world (authorized (Uploaded (Some alice_text) (Some trophy))) =
     ([ConsoleLog [Str ''Received achievement notification for Alice - Dragon Slayer''],
       ConsoleLog [Str ''Received file: trophy.png, size: 2048, type: image/png''],
       ChannelsFetch ''42'',
       ChannelSend \<lparr> embeds = [\<lparr> embed_color = ''#00FF00'', embed_title = TITLE,
           embed_description = ''**Alice** has unlocked the achievement: **Dragon Slayer**!'',
           embed_timestamp = 86400, embed_fields = [],
           embed_image = Some ''attachment://trophy.png'', embed_thumbnail = None \<rparr>],
         files = [\<lparr> attachment_buffer = [137, 80, 78, 71], attachment_name = ''trophy.png'' \<rparr>] \<rparr>,
       ConsoleLog [Str ''Successfully sent notification for Alice to Discord channel 42'']],
      Responded 200 (MessageBody ''Notification sent successfully''))"
  by (simp add: route_authorized handler_def ready_state_ready parse_jsonData_def texts_not_empty
        parse_examples)
     (simp add: alice_def example_world_sel interpolate_def log_file_def dispatch_def after_def
        build_message_def base_embed_def example_builders attachment_for_def example_config_def trophy_def
        decimal_2048)

text \<open>
  A file without a name and an achievement name with a space: the generated
  reference has a space, \<^verbatim>\<open>setImage\<close> refuses it, and nothing is sent.
\<close>

lemma run_alice_unnamed:
  "route example_config ready_state example_world (authorized (Uploaded (Some alice_text) (Some unnamed_file))) =
     ([ConsoleLog [Str ''Received achievement notification for Alice - Dragon Slayer''],
       ConsoleLog [Str ''Received file: undefined, size: 2048, type: image/png''],
       ChannelsFetch ''42'',
       ConsoleError [Str ''Error processing notification or sending to Discord for Alice:'',
                     Err (Upstream ''Invalid URL'')]],
      Responded 500 (ErrorBody ''Internal Server Error: Failed to send Discord notification''))"
  by (simp add: route_authorized handler_def ready_state_ready parse_jsonData_def texts_not_empty
        parse_examples)
     (simp add: alice_def example_world_sel interpolate_def log_file_def dispatch_def after_def
        build_message_def base_embed_def example_builders attachment_for_def example_config_def
        trophy_def unnamed_file_def decimal_2048 catch_block_def)

lemma run_bob_unnamed:
  "route example_config ready_state example_world (authorized (Uploaded (Some bob_text) (Some unnamed_file))) =
     ([ConsoleLog [Str ''Received achievement notification for Bob - Firestarter''],
       ConsoleLog [Str ''Received file: undefined, size: 2048, type: image/png''],
       ChannelsFetch ''42'',
       ChannelSend \<lparr> embeds = [\<lparr> embed_color = ''#00FF00'', embed_title = TITLE,
           embed_description = ''**Bob** has unlocked the achievement: **Firestarter**!'',
           embed_timestamp = 86400, embed_fields = [],
           embed_image = Some ''attachment://achievement-Firestarter.png'', embed_thumbnail = None \<rparr>],
         files = [\<lparr> attachment_buffer = [137, 80, 78, 71],
                    attachment_name = ''achievement-Firestarter.png'' \<rparr>] \<rparr>,
       ConsoleLog [Str ''Successfully sent notification for Bob to Discord channel 42'']],
      Responded 200 (MessageBody ''Notification sent successfully''))"
  by (simp add: route_authorized handler_def ready_state_ready parse_jsonData_def texts_not_empty
        parse_examples)
     (simp add: bob_def example_world_sel interpolate_def log_file_def dispatch_def after_def
        build_message_def base_embed_def example_builders attachment_for_def example_config_def
        trophy_def unnamed_file_def decimal_2048)

lemma run_alice_icon:
  "route example_config ready_state example_world (authorized (Uploaded (Some alice_icon_text) None)) =
     ([ConsoleLog [Str ''Received achievement notification for Alice - Dragon Slayer''],
       ConsoleLog [Str ''No file uploaded with this request.''],
       ChannelsFetch ''42'',
       ConsoleLog [Str ''No file uploaded, using iconSource URL as thumbnail:'',
                   Val (JString ''https://example.org/d.png'')],
       ChannelSend \<lparr> embeds = [\<lparr> embed_color = ''#00FF00'', embed_title = TITLE,
           embed_description = ''**Alice** has unlocked the achievement: **Dragon Slayer**!'',
           embed_timestamp = 86400, embed_fields = [(''Description'', JString ''Slay it'')],
           embed_image = None, embed_thumbnail = Some ''https://example.org/d.png'' \<rparr>],
         files = [] \<rparr>,
       ConsoleLog [Str ''Successfully sent notification for Alice to Discord channel 42'']],
      Responded 200 (MessageBody ''Notification sent successfully''))"
  by (simp add: route_authorized handler_def ready_state_ready parse_jsonData_def texts_not_empty
        parse_examples)
     (simp add: alice_icon_def example_world_sel interpolate_def log_file_def dispatch_def after_def
        build_message_def base_embed_def example_builders example_config_def startsWith_def)

lemma run_alice_ftp:
  "route example_config ready_state example_world (authorized (Uploaded (Some alice_ftp_text) None)) =
     ([ConsoleLog [Str ''Received achievement notification for Alice - Dragon Slayer''],
       ConsoleLog [Str ''No file uploaded with this request.''],
       ChannelsFetch ''42'',
       ChannelSend \<lparr> embeds = [\<lparr> embed_color = ''#00FF00'', embed_title = TITLE,
           embed_description = ''**Alice** has unlocked the achievement: **Dragon Slayer**!'',
           embed_timestamp = 86400, embed_fields = [], embed_image = None,
           embed_thumbnail = None \<rparr>], files = [] \<rparr>,
       ConsoleLog [Str ''Successfully sent notification for Alice to Discord channel 42'']],
      Responded 200 (MessageBody ''Notification sent successfully''))"
  by (simp add: route_authorized handler_def ready_state_ready parse_jsonData_def texts_not_empty
        parse_examples)
     (simp add: alice_ftp_def example_world_sel interpolate_def log_file_def dispatch_def after_def
        build_message_def base_embed_def example_builders example_config_def startsWith_def)

subsection \<open>The message handed to the chat service\<close>

lemma route_sent_message:
  assumes "m \<in> set (sent_messages (route cfg st w req))"
  shows "\<exists>jd f payload u a logs.
           multipart req = Uploaded jd f \<and> parse_jsonData w jd = Inr payload
         \<and> interpolate (Number_toString w) (get_property payload ''userName'') = Some u
         \<and> interpolate (Number_toString w) (get_property payload ''achievementName'') = Some a
         \<and> build_message w u a (get_property payload ''achievementDescription'')
              (get_property payload ''iconSource'') f = (logs, Inr m)"
proof -
  obtain jd f where 1: "multipart req = Uploaded jd f"
      and 2: "m \<in> set (sent_messages (handler cfg st w jd f))"
    using route_sent [OF assms] by blast
  from handler_sent [OF 2] 1 show ?thesis by blast
qed

lemma base_embed_Inr:
  assumes "base_embed w u a d = Inr e"
  shows "embed_title e = TITLE"
    and "embed_description e = ''**'' @ u @ ''** has unlocked the achievement: **'' @ a @ ''**!''"
    and "embed_image e = None"
    and "embed_thumbnail e = None"
    and "embed_fields e =
           (case d of None \<Rightarrow> []
            | Some v \<Rightarrow> if truthy (Number_isFalsy w) (Some v) then [(''Description'', v)] else [])"
  using assms
  by (auto simp: base_embed_def Let_def split: option.splits if_splits)

lemma build_message_file:
  assumes "build_message w u a d i (Some f) = (logs, Inr m)"
  shows "\<exists>e. base_embed w u a d = Inr e
           \<and> m = \<lparr> embeds = [e \<lparr> embed_image :=
                                 Some (''attachment://'' @ attachment_name (attachment_for f a)) \<rparr>],
                    files = [attachment_for f a] \<rparr>"
  using assms
  by (auto simp: build_message_def Let_def split: sum.splits option.splits)

text \<open>
  A reference that \<^verbatim>\<open>setImage\<close> refuses: the error goes to the \<^verbatim>\<open>catch\<close> block and
  \<^verbatim>\<open>channel.send\<close> is not called.
\<close>

lemma build_message_setImage_refuses:
  assumes "base_embed w u a d = Inr e0"
    and "setImage w (''attachment://'' @ attachment_name (attachment_for f a)) = Some e"
  shows "build_message w u a d i (Some f) = ([], Inl e)"
  using assms by (simp add: build_message_def Let_def)

lemma dispatch_build_fails:
  assumes "channels_fetch w (TARGET_CHANNEL_ID cfg) = Inr (Some TextChannel)"
    and "build_message w u a d i f = (logs, Inl e)"
  shows "dispatch cfg w u a d i f =
           after ([ChannelsFetch (TARGET_CHANNEL_ID cfg)] @ logs) (catch_block u e)"
  using assms by (simp add: dispatch_def after_def)

lemma build_message_ignores_iconSource:
  "build_message w u a d i (Some f) = build_message w u a d i' (Some f)"
  by (simp add: build_message_def split: sum.splits)

text \<open>
  Claim C1. When the request carries a file, every message the route hands to
  \<^verbatim>\<open>channel.send\<close> has one embed and one attached file, made of the uploaded bytes;
  the image slot of the embed is \<^verbatim>\<open>attachment://\<close> followed by the name of that
  attachment, and the thumbnail slot, the only place where the route ever puts
  \<^verbatim>\<open>iconSource\<close>, is empty. The message does not depend on \<^verbatim>\<open>iconSource\<close> at all.
\<close>

theorem attachment_takes_priority:
  assumes "multipart req = Uploaded jsonData (Some f)"
    and "m \<in> set (sent_messages (route cfg st w req))"
  shows "(\<exists>e att. embeds m = [e] \<and> files m = [att] \<and> attachment_buffer att = buffer f
            \<and> embed_image e = Some (''attachment://'' @ attachment_name att)
            \<and> embed_thumbnail e = None)
       \<and> (\<forall>u a d i i'. build_message w u a d i (Some f) = build_message w u a d i' (Some f))"
proof
  obtain jd f' payload u a logs where
      1: "multipart req = Uploaded jd f'"
      and b: "build_message w u a (get_property payload ''achievementDescription'')
              (get_property payload ''iconSource'') f' = (logs, Inr m)"
    using route_sent_message [OF assms(2)] by blast
  from 1 assms(1) have "f' = Some f" by simp
  with b have "build_message w u a (get_property payload ''achievementDescription'')
              (get_property payload ''iconSource'') (Some f) = (logs, Inr m)"
    by simp
  from build_message_file [OF this] obtain e0 where
      e0: "base_embed w u a (get_property payload ''achievementDescription'') = Inr e0"
      and m: "m = \<lparr> embeds = [e0 \<lparr> embed_image :=
                                 Some (''attachment://'' @ attachment_name (attachment_for f a)) \<rparr>],
                    files = [attachment_for f a] \<rparr>"
    by (elim exE conjE)
  from m show "\<exists>e att. embeds m = [e] \<and> files m = [att] \<and> attachment_buffer att = buffer f
            \<and> embed_image e = Some (''attachment://'' @ attachment_name att)
            \<and> embed_thumbnail e = None"
    by (simp add: base_embed_Inr [OF e0] attachment_for_def)
next
  show "\<forall>u a d i i'. build_message w u a d i (Some f) = build_message w u a d i' (Some f)"
    by (intro allI) (rule build_message_ignores_iconSource)
qed


theorem attachment_takes_priority_witness:
  "get_property alice_icon ''iconSource'' = Some (JString ''https://example.org/d.png'')
   \<and> (\<exists>m. sent_messages (route example_config ready_state example_world
              (authorized (Uploaded (Some alice_icon_text) (Some trophy)))) = [m]
        \<and> (\<exists>e att. embeds m = [e] \<and> files m = [att] \<and> attachment_buffer att = buffer trophy
            \<and> embed_image e = Some (''attachment://'' @ attachment_name att)
            \<and> embed_image e = Some ''attachment://trophy.png''
            \<and> embed_thumbnail e = None))"
proof -
  let ?req = "authorized (Uploaded (Some alice_icon_text) (Some trophy))"
  let ?r = "route example_config ready_state example_world ?req"
  obtain m where m: "sent_messages ?r = [m]"
      and i: "map embed_image (embeds m) = [Some ''attachment://trophy.png'']"
    by (simp add: run_alice_icon_trophy sent_messages_def map_filter_def)
  then have "m \<in> set (sent_messages ?r)" by simp
  from attachment_takes_priority [OF multipart_authorized this]
  obtain e att where "embeds m = [e] \<and> files m = [att] \<and> attachment_buffer att = buffer trophy
            \<and> embed_image e = Some (''attachment://'' @ attachment_name att)
            \<and> embed_thumbnail e = None"
    by blast
  with m i show ?thesis by (auto simp: alice_icon_def)
qed

text \<open>
  Claim C8. When the request carries a file, the attachment of every message sent
  is named by the upload's \<^verbatim>\<open>originalname\<close> when there is one and it is not empty, and
  otherwise \<^verbatim>\<open>achievement-\<close>, the achievement name as a string, \<^verbatim>\<open>.png\<close>; the image
  slot of the embed is \<^verbatim>\<open>attachment://\<close> followed by that name. (A message is sent
  only when \<^verbatim>\<open>setImage\<close> accepts that reference.)
\<close>

theorem attachment_is_named:
  assumes "multipart req = Uploaded (Some s) (Some f)"
    and "JSON_parse w s = Inr payload"
    and "m \<in> set (sent_messages (route cfg st w req))"
  shows "\<exists>e att a. embeds m = [e] \<and> files m = [att]
           \<and> interpolate (Number_toString w) (get_property payload ''achievementName'') = Some a
           \<and> (\<forall>n. originalname f = Some n \<and> n \<noteq> [] \<longrightarrow> attachment_name att = n)
           \<and> (originalname f = None \<or> originalname f = Some []
                \<longrightarrow> attachment_name att = ''achievement-'' @ a @ ''.png'')
           \<and> embed_image e = Some (''attachment://'' @ attachment_name att)"
proof -
  obtain jd f' p u a logs where
      1: "multipart req = Uploaded jd f'" and 2: "parse_jsonData w jd = Inr p"
      and 3: "interpolate (Number_toString w) (get_property p ''achievementName'') = Some a"
      and b: "build_message w u a (get_property p ''achievementDescription'')
              (get_property p ''iconSource'') f' = (logs, Inr m)"
    using route_sent_message [OF assms(3)] by blast
  from 1 assms(1) have jd: "jd = Some s" and f: "f' = Some f" by simp_all
  from 2 jd assms(2) have p: "p = payload" by (auto dest: parse_jsonData_Some)
  from b f have "build_message w u a (get_property p ''achievementDescription'')
              (get_property p ''iconSource'') (Some f) = (logs, Inr m)"
    by simp
  from build_message_file [OF this] obtain e0 where
      m: "m = \<lparr> embeds = [e0 \<lparr> embed_image :=
                                 Some (''attachment://'' @ attachment_name (attachment_for f a)) \<rparr>],
                    files = [attachment_for f a] \<rparr>"
    by (elim exE conjE)
  with 3 p show ?thesis
    by (auto simp: attachment_for_def)
qed

theorem attachment_is_named_witness:
  "(\<exists>m e att. sent_messages (route example_config ready_state example_world
              (authorized (Uploaded (Some alice_text) (Some trophy)))) = [m]
        \<and> embeds m = [e] \<and> files m = [att] \<and> originalname trophy = Some ''trophy.png''
        \<and> attachment_name att = ''trophy.png''
        \<and> embed_image e = Some (''attachment://'' @ attachment_name att))
   \<and> (\<exists>m e att. sent_messages (route example_config ready_state example_world
              (authorized (Uploaded (Some bob_text) (Some unnamed_file)))) = [m]
        \<and> embeds m = [e] \<and> files m = [att] \<and> originalname unnamed_file = None
        \<and> attachment_name att = ''achievement-Firestarter.png''
        \<and> embed_image e = Some (''attachment://'' @ attachment_name att))"
proof
  let ?r = "route example_config ready_state example_world
              (authorized (Uploaded (Some alice_text) (Some trophy)))"
  obtain m where m: "sent_messages ?r = [m]"
    by (simp add: run_alice_trophy sent_messages_def map_filter_def)
  then have "m \<in> set (sent_messages ?r)" by simp
  from attachment_is_named [OF multipart_authorized parse_examples(1) this]
  obtain e att a where x: "embeds m = [e]" "files m = [att]"
      "interpolate (Number_toString example_world) (get_property alice ''achievementName'') = Some a"
      "\<forall>n. originalname trophy = Some n \<and> n \<noteq> [] \<longrightarrow> attachment_name att = n"
      "embed_image e = Some (''attachment://'' @ attachment_name att)"
    by blast
  have o: "originalname trophy = Some ''trophy.png''" by (simp add: trophy_def)
  with x(4) have n: "attachment_name att = ''trophy.png''" by simp
  with m x o show "\<exists>m e att. sent_messages ?r = [m]
        \<and> embeds m = [e] \<and> files m = [att] \<and> originalname trophy = Some ''trophy.png''
        \<and> attachment_name att = ''trophy.png''
        \<and> embed_image e = Some (''attachment://'' @ attachment_name att)"
    by blast
next
  let ?r = "route example_config ready_state example_world
              (authorized (Uploaded (Some bob_text) (Some unnamed_file)))"
  obtain m where m: "sent_messages ?r = [m]"
    by (simp add: run_bob_unnamed sent_messages_def map_filter_def)
  then have "m \<in> set (sent_messages ?r)" by simp
  from attachment_is_named [OF multipart_authorized parse_examples(4) this]
  obtain e att a where x: "embeds m = [e]" "files m = [att]"
      "interpolate (Number_toString example_world) (get_property bob ''achievementName'') = Some a"
      "originalname unnamed_file = None \<or> originalname unnamed_file = Some []
                \<longrightarrow> attachment_name att = ''achievement-'' @ a @ ''.png''"
      "embed_image e = Some (''attachment://'' @ attachment_name att)"
    by blast
  have o: "originalname unnamed_file = None" by (simp add: unnamed_file_def trophy_def)
  from x(3) have "a = ''Firestarter''" by (simp add: bob_def interpolate_def)
  with x(4) o have n: "attachment_name att = ''achievement-Firestarter.png''" by simp
  with m x o show "\<exists>m e att. sent_messages ?r = [m]
        \<and> embeds m = [e] \<and> files m = [att] \<and> originalname unnamed_file = None
        \<and> attachment_name att = ''achievement-Firestarter.png''
        \<and> embed_image e = Some (''attachment://'' @ attachment_name att)"
    by blast
qed

lemma build_message_embed:
  assumes "build_message w u a d i f = (logs, Inr m)"
  shows "\<exists>e. embeds m = [e] \<and> embed_title e = TITLE
          \<and> embed_description e = ''**'' @ u @ ''** has unlocked the achievement: **'' @ a @ ''**!''
          \<and> embed_fields e =
               (case d of None \<Rightarrow> []
                | Some v \<Rightarrow> if truthy (Number_isFalsy w) (Some v) then [(''Description'', v)] else [])
          \<and> (f = None \<and> i = None \<longrightarrow> embed_image e = None \<and> embed_thumbnail e = None)"
proof (cases "base_embed w u a d")
  case (Inl x)
  with assms show ?thesis by (simp add: build_message_def)
next
  case (Inr e0)
  note s = base_embed_Inr [OF Inr]
  from assms Inr show ?thesis
    by (auto simp: build_message_def Let_def s
             split: option.splits if_splits json.splits)
qed

lemma build_message_no_file:
  assumes "build_message w u a d i None = (logs, Inr m)"
  shows "\<exists>e. embeds m = [e] \<and> files m = [] \<and> embed_image e = None
          \<and> embed_thumbnail e =
               (case i of
                  Some (JString url) \<Rightarrow>
                    if startsWith url ''http://'' \<or> startsWith url ''https://'' then Some url else None
                | _ \<Rightarrow> None)"
proof (cases "base_embed w u a d")
  case (Inl x)
  with assms show ?thesis by (simp add: build_message_def)
next
  case (Inr e0)
  note s = base_embed_Inr [OF Inr]
  from assms Inr show ?thesis
    by (auto simp: build_message_def Let_def s startsWith_def
             split: option.splits if_splits json.splits)
qed

lemma interpolate_JString: "interpolate ns (Some (JString x)) = Some x"
  by (simp add: interpolate_def)

text \<open>
  Claim C2. Every message the route hands to \<^verbatim>\<open>channel.send\<close> has one embed, whose
  title is the fixed title and whose description is the fixed template around
  the user name and the achievement name as strings (for string values, the
  values themselves), so that it contains both. The embed has the one field
  \<^verbatim>\<open>Description\<close>, holding \<^verbatim>\<open>achievementDescription\<close>, exactly when that value is truthy:
  for a string, when it is present and not empty. Without a file and without
  \<^verbatim>\<open>iconSource\<close>, neither the image slot nor the thumbnail slot is set.
\<close>

theorem message_contents:
  assumes "multipart req = Uploaded (Some s) file"
    and "JSON_parse w s = Inr payload"
    and "m \<in> set (sent_messages (route cfg st w req))"
  shows "\<exists>e u a. embeds m = [e]
      \<and> interpolate (Number_toString w) (get_property payload ''userName'') = Some u
      \<and> interpolate (Number_toString w) (get_property payload ''achievementName'') = Some a
      \<and> (\<forall>x. get_property payload ''userName'' = Some (JString x) \<longrightarrow> u = x)
      \<and> (\<forall>x. get_property payload ''achievementName'' = Some (JString x) \<longrightarrow> a = x)
      \<and> embed_title e = TITLE
      \<and> embed_description e = ''**'' @ u @ ''** has unlocked the achievement: **'' @ a @ ''**!''
      \<and> sublist u (embed_description e) \<and> sublist a (embed_description e)
      \<and> embed_fields e =
           (case get_property payload ''achievementDescription'' of
              None \<Rightarrow> []
            | Some d \<Rightarrow> if truthy (Number_isFalsy w) (Some d) then [(''Description'', d)] else [])
      \<and> (\<forall>x. get_property payload ''achievementDescription'' = Some (JString x)
             \<longrightarrow> embed_fields e = (if x = [] then [] else [(''Description'', JString x)]))
      \<and> (file = None \<and> get_property payload ''iconSource'' = None
             \<longrightarrow> embed_image e = None \<and> embed_thumbnail e = None)"
proof -
  obtain jd f' p u a logs where
      1: "multipart req = Uploaded jd f'" and 2: "parse_jsonData w jd = Inr p"
      and u: "interpolate (Number_toString w) (get_property p ''userName'') = Some u"
      and a: "interpolate (Number_toString w) (get_property p ''achievementName'') = Some a"
      and b: "build_message w u a (get_property p ''achievementDescription'')
              (get_property p ''iconSource'') f' = (logs, Inr m)"
    using route_sent_message [OF assms(3)] by blast
  from 1 assms(1) have jd: "jd = Some s" and f: "f' = file" by simp_all
  from 2 jd assms(2) have p: "p = payload" by (auto dest: parse_jsonData_Some)
  from build_message_embed [OF b] obtain e where e: "embeds m = [e]" "embed_title e = TITLE"
      "embed_description e = ''**'' @ u @ ''** has unlocked the achievement: **'' @ a @ ''**!''"
      "embed_fields e =
         (case get_property p ''achievementDescription'' of None \<Rightarrow> []
          | Some v \<Rightarrow> if truthy (Number_isFalsy w) (Some v) then [(''Description'', v)] else [])"
      "f' = None \<and> get_property p ''iconSource'' = None
         \<longrightarrow> embed_image e = None \<and> embed_thumbnail e = None"
    by (elim exE conjE)
  have su: "sublist u (embed_description e)"
    unfolding e(3) sublist_def by blast
  have "embed_description e = (''**'' @ u @ ''** has unlocked the achievement: **'') @ a @ ''**!''"
    by (simp add: e(3))
  then have sa: "sublist a (embed_description e)"
    unfolding sublist_def by blast
  have ux: "\<forall>x. get_property payload ''userName'' = Some (JString x) \<longrightarrow> u = x"
    using u p by (auto simp: interpolate_JString)
  have ax: "\<forall>x. get_property payload ''achievementName'' = Some (JString x) \<longrightarrow> a = x"
    using a p by (auto simp: interpolate_JString)
  have fl: "embed_fields e =
           (case get_property payload ''achievementDescription'' of
              None \<Rightarrow> []
            | Some d \<Rightarrow> if truthy (Number_isFalsy w) (Some d) then [(''Description'', d)] else [])"
    using p by (simp add: e(4))
  then have fx: "\<forall>x. get_property payload ''achievementDescription'' = Some (JString x)
             \<longrightarrow> embed_fields e = (if x = [] then [] else [(''Description'', JString x)])"
    by simp
  have im: "file = None \<and> get_property payload ''iconSource'' = None
             \<longrightarrow> embed_image e = None \<and> embed_thumbnail e = None"
    using e(5) p f by simp
  show ?thesis
  proof (intro exI conjI)
    show "embeds m = [e]" by fact
    show "interpolate (Number_toString w) (get_property payload ''userName'') = Some u"
      using u p by simp
    show "interpolate (Number_toString w) (get_property payload ''achievementName'') = Some a"
      using a p by simp
    show "\<forall>x. get_property payload ''userName'' = Some (JString x) \<longrightarrow> u = x" by fact
    show "\<forall>x. get_property payload ''achievementName'' = Some (JString x) \<longrightarrow> a = x" by fact
    show "embed_title e = TITLE" by fact
    show "embed_description e = ''**'' @ u @ ''** has unlocked the achievement: **'' @ a @ ''**!''"
      by fact
    show "sublist u (embed_description e)" by fact
    show "sublist a (embed_description e)" by fact
    show "embed_fields e =
           (case get_property payload ''achievementDescription'' of
              None \<Rightarrow> []
            | Some d \<Rightarrow> if truthy (Number_isFalsy w) (Some d) then [(''Description'', d)] else [])"
      by fact
    show "\<forall>x. get_property payload ''achievementDescription'' = Some (JString x)
             \<longrightarrow> embed_fields e = (if x = [] then [] else [(''Description'', JString x)])"
      by fact
    show "file = None \<and> get_property payload ''iconSource'' = None
             \<longrightarrow> embed_image e = None \<and> embed_thumbnail e = None"
      by fact
  qed
qed


lemma alice_properties:
  "get_property alice ''userName'' = Some (JString ''Alice'')"
  "get_property alice ''achievementName'' = Some (JString ''Dragon Slayer'')"
  "get_property alice ''achievementDescription'' = None"
  "get_property alice ''iconSource'' = None"
  by (simp_all add: alice_def)

theorem message_contents_witness:
  "\<exists>m e. sent_messages (route example_config ready_state example_world
             (authorized (Uploaded (Some alice_text) None))) = [m]
     \<and> embeds m = [e] \<and> embed_title e = TITLE
     \<and> embed_description e = ''**Alice** has unlocked the achievement: **Dragon Slayer**!''
     \<and> sublist ''Alice'' (embed_description e) \<and> sublist ''Dragon Slayer'' (embed_description e)
     \<and> embed_fields e = [] \<and> embed_image e = None \<and> embed_thumbnail e = None"
proof -
  let ?r = "route example_config ready_state example_world (authorized (Uploaded (Some alice_text) None))"
  obtain m where m: "sent_messages ?r = [m]"
    by (simp add: run_alice sent_messages_def map_filter_def)
  then have "m \<in> set (sent_messages ?r)" by simp
  from message_contents [OF multipart_authorized parse_examples(1) this]
  obtain e u a where e: "embeds m = [e]"
      and ux: "\<forall>x. get_property alice ''userName'' = Some (JString x) \<longrightarrow> u = x"
      and ax: "\<forall>x. get_property alice ''achievementName'' = Some (JString x) \<longrightarrow> a = x"
      and t: "embed_title e = TITLE"
      and d: "embed_description e = ''**'' @ u @ ''** has unlocked the achievement: **'' @ a @ ''**!''"
      and su: "sublist u (embed_description e)" and sa: "sublist a (embed_description e)"
      and fl: "embed_fields e =
           (case get_property alice ''achievementDescription'' of
              None \<Rightarrow> []
            | Some d \<Rightarrow> if truthy (Number_isFalsy example_world) (Some d) then [(''Description'', d)] else [])"
      and im: "None = (None :: uploaded_file option) \<and> get_property alice ''iconSource'' = None
             \<longrightarrow> embed_image e = None \<and> embed_thumbnail e = None"
    by (elim exE conjE)
  from ux have u: "u = ''Alice''" by (simp add: alice_properties)
  from ax have a: "a = ''Dragon Slayer''" by (simp add: alice_properties)
  from d u a have d': "embed_description e = ''**Alice** has unlocked the achievement: **Dragon Slayer**!''"
    by simp
  from fl have f: "embed_fields e = []" by (simp add: alice_properties)
  from im have i: "embed_image e = None" "embed_thumbnail e = None" by (simp_all add: alice_properties)
  show ?thesis
  proof (intro exI conjI)
    show "sent_messages ?r = [m]" by fact
    show "embeds m = [e]" by fact
    show "embed_title e = TITLE" by fact
    show "embed_description e = ''**Alice** has unlocked the achievement: **Dragon Slayer**!''" by fact
    show "sublist ''Alice'' (embed_description e)" using su u by simp
    show "sublist ''Dragon Slayer'' (embed_description e)" using sa a by simp
    show "embed_fields e = []" by fact
    show "embed_image e = None" by fact
    show "embed_thumbnail e = None" by fact
  qed
qed

text \<open>
  Claim C3, as amended. For a request without a file, every message sent has no
  attached file and an empty image slot. When \<^verbatim>\<open>iconSource\<close> is a string that begins
  with \<^verbatim>\<open>http://\<close> or \<^verbatim>\<open>https://\<close>, the thumbnail slot is that URL; when it is a string
  that begins with neither, or is absent, the thumbnail slot is empty as well, so
  the message has no image reference at all.
\<close>

theorem icon_url_is_thumbnail:
  assumes "multipart req = Uploaded (Some s) None"
    and "JSON_parse w s = Inr payload"
    and "m \<in> set (sent_messages (route cfg st w req))"
  shows "\<exists>e. embeds m = [e] \<and> files m = [] \<and> embed_image e = None
       \<and> (\<forall>url. get_property payload ''iconSource'' = Some (JString url)
                \<and> (startsWith url ''http://'' \<or> startsWith url ''https://'')
              \<longrightarrow> embed_thumbnail e = Some url)
       \<and> (\<forall>url. get_property payload ''iconSource'' = Some (JString url)
                \<and> \<not> startsWith url ''http://'' \<and> \<not> startsWith url ''https://''
              \<longrightarrow> embed_thumbnail e = None)
       \<and> (get_property payload ''iconSource'' = None \<longrightarrow> embed_thumbnail e = None)"
proof -
  obtain jd f' p u a logs where
      1: "multipart req = Uploaded jd f'" and 2: "parse_jsonData w jd = Inr p"
      and b: "build_message w u a (get_property p ''achievementDescription'')
              (get_property p ''iconSource'') f' = (logs, Inr m)"
    using route_sent_message [OF assms(3)] by blast
  from 1 assms(1) have jd: "jd = Some s" and f: "f' = None" by simp_all
  from 2 jd assms(2) have p: "p = payload" by (auto dest: parse_jsonData_Some)
  from b f p have "build_message w u a (get_property payload ''achievementDescription'')
              (get_property payload ''iconSource'') None = (logs, Inr m)"
    by simp
  from build_message_no_file [OF this] obtain e where
      e: "embeds m = [e]" "files m = []" "embed_image e = None"
      and th: "embed_thumbnail e =
               (case get_property payload ''iconSource'' of
                  Some (JString url) \<Rightarrow>
                    if startsWith url ''http://'' \<or> startsWith url ''https://'' then Some url else None
                | _ \<Rightarrow> None)"
    by (elim exE conjE)
  show ?thesis
  proof (intro exI conjI)
    show "embeds m = [e]" "files m = []" "embed_image e = None" by fact+
    show "\<forall>url. get_property payload ''iconSource'' = Some (JString url)
                \<and> (startsWith url ''http://'' \<or> startsWith url ''https://'')
              \<longrightarrow> embed_thumbnail e = Some url"
      using th by auto
    show "\<forall>url. get_property payload ''iconSource'' = Some (JString url)
                \<and> \<not> startsWith url ''http://'' \<and> \<not> startsWith url ''https://''
              \<longrightarrow> embed_thumbnail e = None"
      using th by auto
    show "get_property payload ''iconSource'' = None \<longrightarrow> embed_thumbnail e = None"
      using th by auto
  qed
qed

theorem icon_url_is_thumbnail_witness:
  "(\<exists>m e. sent_messages (route example_config ready_state example_world
             (authorized (Uploaded (Some alice_icon_text) None))) = [m]
      \<and> get_property alice_icon ''iconSource'' = Some (JString ''https://example.org/d.png'')
      \<and> embeds m = [e] \<and> files m = [] \<and> embed_image e = None
      \<and> embed_thumbnail e = Some ''https://example.org/d.png'')
   \<and> (\<exists>m e. sent_messages (route example_config ready_state example_world
             (authorized (Uploaded (Some alice_ftp_text) None))) = [m]
      \<and> get_property alice_ftp ''iconSource'' = Some (JString ''ftp://evil'')
      \<and> embeds m = [e] \<and> files m = [] \<and> embed_image e = None
      \<and> embed_thumbnail e = None)"
proof
  let ?r = "route example_config ready_state example_world (authorized (Uploaded (Some alice_icon_text) None))"
  have i: "get_property alice_icon ''iconSource'' = Some (JString ''https://example.org/d.png'')"
    by (simp add: alice_icon_def)
  have h: "startsWith ''https://example.org/d.png'' ''https://''" by (simp add: startsWith_def)
  obtain m where m: "sent_messages ?r = [m]"
    by (simp add: run_alice_icon sent_messages_def map_filter_def)
  then have "m \<in> set (sent_messages ?r)" by simp
  from icon_url_is_thumbnail [OF multipart_authorized parse_examples(2) this]
  obtain e where e: "embeds m = [e]" "files m = []" "embed_image e = None"
      and t: "\<forall>url. get_property alice_icon ''iconSource'' = Some (JString url)
                \<and> (startsWith url ''http://'' \<or> startsWith url ''https://'')
              \<longrightarrow> embed_thumbnail e = Some url"
    by (elim exE conjE)
  from t i h have "embed_thumbnail e = Some ''https://example.org/d.png''" by blast
  with m i e show "\<exists>m e. sent_messages ?r = [m]
      \<and> get_property alice_icon ''iconSource'' = Some (JString ''https://example.org/d.png'')
      \<and> embeds m = [e] \<and> files m = [] \<and> embed_image e = None
      \<and> embed_thumbnail e = Some ''https://example.org/d.png''"
    by (intro exI conjI)
next
  let ?r = "route example_config ready_state example_world (authorized (Uploaded (Some alice_ftp_text) None))"
  have i: "get_property alice_ftp ''iconSource'' = Some (JString ''ftp://evil'')"
    by (simp add: alice_ftp_def)
  have h: "\<not> startsWith ''ftp://evil'' ''http://''" "\<not> startsWith ''ftp://evil'' ''https://''"
    by (simp_all add: startsWith_def)
  obtain m where m: "sent_messages ?r = [m]"
    by (simp add: run_alice_ftp sent_messages_def map_filter_def)
  then have "m \<in> set (sent_messages ?r)" by simp
  from icon_url_is_thumbnail [OF multipart_authorized parse_examples(3) this]
  obtain e where e: "embeds m = [e]" "files m = []" "embed_image e = None"
      and t: "\<forall>url. get_property alice_ftp ''iconSource'' = Some (JString url)
                \<and> \<not> startsWith url ''http://'' \<and> \<not> startsWith url ''https://''
              \<longrightarrow> embed_thumbnail e = None"
    by (elim exE conjE)
  from t i h have "embed_thumbnail e = None" by blast
  with m i e show "\<exists>m e. sent_messages ?r = [m]
      \<and> get_property alice_ftp ''iconSource'' = Some (JString ''ftp://evil'')
      \<and> embeds m = [e] \<and> files m = [] \<and> embed_image e = None
      \<and> embed_thumbnail e = None"
    by (intro exI conjI)
qed

text \<open>
  Claim C3 as it is written puts the URL in the image slot. The route calls
  \<^verbatim>\<open>setThumbnail\<close>, not \<^verbatim>\<open>setImage\<close>: on a request without a file whose \<^verbatim>\<open>iconSource\<close>
  is an \<^verbatim>\<open>https\<close> URL, the image slot of the message sent is empty.
\<close>

theorem icon_url_leaves_image_slot_empty:
  "get_property alice_icon ''iconSource'' = Some (JString ''https://example.org/d.png'')
   \<and> startsWith ''https://example.org/d.png'' ''https://''
   \<and> sent_messages (route example_config ready_state example_world
        (authorized (Uploaded (Some alice_icon_text) None))) =
      [\<lparr> embeds = [\<lparr> embed_color = ''#00FF00'', embed_title = TITLE,
           embed_description = ''**Alice** has unlocked the achievement: **Dragon Slayer**!'',
           embed_timestamp = 86400, embed_fields = [(''Description'', JString ''Slay it'')],
           embed_image = None, embed_thumbnail = Some ''https://example.org/d.png'' \<rparr>],
         files = [] \<rparr>]"
  by (simp add: run_alice_icon sent_messages_def map_filter_def alice_icon_def startsWith_def)

subsection \<open>Failures of the chat service\<close>

lemma chat_calls_eq: "chat_calls (es, x) = filter is_chat_call es"
  by (simp add: chat_calls_def)

lemma handler_reaches_dispatch:
  assumes "chat_calls (handler cfg st w jd f) \<noteq> []"
  shows "\<exists>u a d i. handler cfg st w jd f =
           after [ConsoleLog [Str (''Received achievement notification for '' @ u @ '' - '' @ a)],
                  log_file f]
             (dispatch cfg w u a d i f)"
  using assms
  by (auto simp: handler_def Let_def chat_calls_eq
           split: if_splits sum.splits option.splits)

lemma route_reaches_dispatch:
  assumes "chat_calls (route cfg st w req) \<noteq> []"
  shows "\<exists>es u a d i f. route cfg st w req = after es (dispatch cfg w u a d i f)
           \<and> filter is_chat_call es = []"
proof -
  have n: "authenticateRequest cfg (authorization req) = Next"
    using assms by (auto simp: route_def chat_calls_eq split: gate.splits)
  then obtain jd f where u: "multipart req = Uploaded jd f"
    using assms by (cases "multipart req") (auto simp: route_def chat_calls_eq)
  with n have r: "route cfg st w req = handler cfg st w jd f" by (simp add: route_Next)
  with assms have "chat_calls (handler cfg st w jd f) \<noteq> []" by simp
  from handler_reaches_dispatch [OF this] obtain u a d i where
    h: "handler cfg st w jd f =
           after [ConsoleLog [Str (''Received achievement notification for '' @ u @ '' - '' @ a)],
                  log_file f]
             (dispatch cfg w u a d i f)"
    by (elim exE)
  have q: "filter is_chat_call
          [ConsoleLog [Str (''Received achievement notification for '' @ u @ '' - '' @ a)], log_file f] = []"
    by (simp add: log_file_quiet)
  have e: "route cfg st w req =
           after [ConsoleLog [Str (''Received achievement notification for '' @ u @ '' - '' @ a)],
                  log_file f]
             (dispatch cfg w u a d i f)"
    using r h by simp
  show ?thesis by (intro exI conjI) (rule e, rule q)
qed

lemma snd_catch_block:
  "snd (catch_block u e) =
     Responded 500 (ErrorBody ''Internal Server Error: Failed to send Discord notification'')"
  by (simp add: catch_block_def)

lemma fst_catch_block:
  "fst (catch_block u e) =
     [ConsoleError [Str (''Error processing notification or sending to Discord for '' @ u @ '':''), Err e]]"
  by (simp add: catch_block_def)

lemma dispatch_fetch_throws:
  assumes "channels_fetch w (TARGET_CHANNEL_ID cfg) = Inl e"
  shows "dispatch cfg w u a d i f = after [ChannelsFetch (TARGET_CHANNEL_ID cfg)] (catch_block u e)"
  using assms by (simp add: dispatch_def)

lemma dispatch_no_text_channel:
  assumes "channels_fetch w (TARGET_CHANNEL_ID cfg) = Inr ch" and "ch \<noteq> Some TextChannel"
  shows "dispatch cfg w u a d i f =
           ([ChannelsFetch (TARGET_CHANNEL_ID cfg)],
            Responded 500 (ErrorBody ''Internal Server Error: Could not find or use target Discord channel''))"
  using assms by (simp add: dispatch_def after_def)

lemma not_chat_call_in: "filter is_chat_call es = [] \<Longrightarrow> ChannelSend m \<notin> set es"
  by (auto simp: filter_empty_conv)

lemma dispatch_send_throws:
  assumes "ChannelSend m \<in> set (fst (dispatch cfg w u a d i f))"
    and "channel_send w m = Some e"
  shows "dispatch cfg w u a d i f =
           after ([ChannelsFetch (TARGET_CHANNEL_ID cfg)] @ fst (build_message w u a d i f)
                    @ [ChannelSend m])
             (catch_block u e)"
proof -
  obtain ch where ch: "channels_fetch w (TARGET_CHANNEL_ID cfg) = Inr ch"
    using assms(1)
    by (cases "channels_fetch w (TARGET_CHANNEL_ID cfg)")
       (auto simp: dispatch_def fst_after fst_catch_block)
  have tc: "ch = Some TextChannel"
    using assms(1) ch by (auto simp: dispatch_def fst_after split: if_splits)
  obtain logs r where b: "build_message w u a d i f = (logs, r)"
    by (cases "build_message w u a d i f")
  have q: "ChannelSend m \<notin> set logs"
    using build_message_logs [OF b] by (simp add: not_chat_call_in)
  obtain m' where r: "r = Inr m'"
    using assms(1) ch tc b q
    by (cases r) (auto simp: dispatch_def fst_after fst_catch_block)
  have "m' = m"
    using assms(1) ch tc b r q
    by (auto simp: dispatch_def fst_after fst_catch_block split: option.splits)
  with ch tc b r assms(2) show ?thesis
    by (simp add: dispatch_def after_def)
qed

lemma dispatch_endings:
  "snd (dispatch cfg w u a d i f) = Responded 200 (MessageBody ''Notification sent successfully'')
   \<or> snd (dispatch cfg w u a d i f) =
        Responded 500 (ErrorBody ''Internal Server Error: Could not find or use target Discord channel'')
   \<or> snd (dispatch cfg w u a d i f) =
        Responded 500 (ErrorBody ''Internal Server Error: Failed to send Discord notification'')"
  by (simp add: dispatch_def snd_after snd_catch_block
           split: sum.splits option.splits prod.splits)


lemma failing_worlds_parse:
  "JSON_parse fetch_throws_world alice_text = Inr alice"
  "JSON_parse deleted_channel_world alice_text = Inr alice"
  "JSON_parse send_throws_world alice_text = Inr alice"
  by (simp_all add: fetch_throws_world_def deleted_channel_world_def send_throws_world_def
        example_world_def example_parse_def)

lemma failing_worlds_sel:
  "Number_isFalsy fetch_throws_world = (\<lambda>n. n = 0)"
  "Number_toString fetch_throws_world = decimal"
  "channels_fetch fetch_throws_world = (\<lambda>c. Inl (Upstream ''Missing Access''))"
  "Number_isFalsy deleted_channel_world = (\<lambda>n. n = 0)"
  "Number_toString deleted_channel_world = decimal"
  "channels_fetch deleted_channel_world = (\<lambda>c. Inr None)"
  "Number_isFalsy send_throws_world = (\<lambda>n. n = 0)"
  "Number_toString send_throws_world = decimal"
  "Date_now send_throws_world = 86400"
  "setDescription send_throws_world = example_setDescription"
  "addFields send_throws_world = example_addFields"
  "setImage send_throws_world = example_url"
  "setThumbnail send_throws_world = example_url"
  "channels_fetch send_throws_world = (\<lambda>c. if c = ''42'' then Inr (Some TextChannel) else Inr None)"
  "channel_send send_throws_world = (\<lambda>m. Some (Upstream ''Missing Permissions''))"
  by (simp_all add: fetch_throws_world_def deleted_channel_world_def send_throws_world_def
        example_world_def)

lemma run_fetch_throws:
  "route example_config ready_state fetch_throws_world (authorized (Uploaded (Some alice_text) None)) =
     ([ConsoleLog [Str ''Received achievement notification for Alice - Dragon Slayer''],
       ConsoleLog [Str ''No file uploaded with this request.''],
       ChannelsFetch ''42'',
       ConsoleError [Str ''Error processing notification or sending to Discord for Alice:'',
                     Err (Upstream ''Missing Access'')]],
      Responded 500 (ErrorBody ''Internal Server Error: Failed to send Discord notification''))"
  by (simp add: route_authorized handler_def ready_state_ready parse_jsonData_def texts_not_empty
        failing_worlds_parse)
     (simp add: alice_def failing_worlds_sel interpolate_def log_file_def dispatch_def after_def
        catch_block_def example_config_def)

lemma run_deleted_channel:
  "route example_config ready_state deleted_channel_world (authorized (Uploaded (Some alice_text) None)) =
     ([ConsoleLog [Str ''Received achievement notification for Alice - Dragon Slayer''],
       ConsoleLog [Str ''No file uploaded with this request.''],
       ChannelsFetch ''42''],
      Responded 500 (ErrorBody ''Internal Server Error: Could not find or use target Discord channel''))"
  by (simp add: route_authorized handler_def ready_state_ready parse_jsonData_def texts_not_empty
        failing_worlds_parse)
     (simp add: alice_def failing_worlds_sel interpolate_def log_file_def dispatch_def after_def
        example_config_def)

lemma run_send_throws:
  "route example_config ready_state send_throws_world (authorized (Uploaded (Some alice_text) None)) =
     ([ConsoleLog [Str ''Received achievement notification for Alice - Dragon Slayer''],
       ConsoleLog [Str ''No file uploaded with this request.''],
       ChannelsFetch ''42'',
       ChannelSend \<lparr> embeds = [\<lparr> embed_color = ''#00FF00'', embed_title = TITLE,
           embed_description = ''**Alice** has unlocked the achievement: **Dragon Slayer**!'',
           embed_timestamp = 86400, embed_fields = [], embed_image = None,
           embed_thumbnail = None \<rparr>], files = [] \<rparr>,
       ConsoleError [Str ''Error processing notification or sending to Discord for Alice:'',
                     Err (Upstream ''Missing Permissions'')]],
      Responded 500 (ErrorBody ''Internal Server Error: Failed to send Discord notification''))"
  by (simp add: route_authorized handler_def ready_state_ready parse_jsonData_def texts_not_empty
        failing_worlds_parse)
     (simp add: alice_def failing_worlds_sel interpolate_def log_file_def dispatch_def after_def
        build_message_def base_embed_def example_builders catch_block_def example_config_def)

text \<open>
  Claim C7. For a request that reaches the dispatcher, that is, whose run calls
  the chat service: when \<^verbatim>\<open>channels.fetch\<close> throws, or \<^verbatim>\<open>channel.send\<close> throws on the
  message it is given, the response is 500 with the fixed body of the \<^verbatim>\<open>catch\<close>
  block, and the error thrown is an argument of a \<^verbatim>\<open>console.error\<close> of the run; when
  \<^verbatim>\<open>channels.fetch\<close> returns \<^verbatim>\<open>null\<close> or a channel that is not a text channel, the
  response is 500 with the fixed body of the channel check. Whatever the
  environment does, the response is the success response or 500 with one of
  these two bodies, neither of which depends on the error.
\<close>

theorem dispatcher_failures_are_opaque:
  assumes "chat_calls (route cfg st w req) \<noteq> []"
  shows "(\<forall>e. channels_fetch w (TARGET_CHANNEL_ID cfg) = Inl e \<longrightarrow>
            snd (route cfg st w req) =
              Responded 500 (ErrorBody ''Internal Server Error: Failed to send Discord notification'')
          \<and> (\<exists>t. ConsoleError [Str t, Err e] \<in> set (fst (route cfg st w req))))
       \<and> (\<forall>ch. channels_fetch w (TARGET_CHANNEL_ID cfg) = Inr ch \<and> ch \<noteq> Some TextChannel \<longrightarrow>
            snd (route cfg st w req) =
              Responded 500 (ErrorBody ''Internal Server Error: Could not find or use target Discord channel''))
       \<and> (\<forall>m e. ChannelSend m \<in> set (fst (route cfg st w req)) \<and> channel_send w m = Some e \<longrightarrow>
            snd (route cfg st w req) =
              Responded 500 (ErrorBody ''Internal Server Error: Failed to send Discord notification'')
          \<and> (\<exists>t. ConsoleError [Str t, Err e] \<in> set (fst (route cfg st w req))))
       \<and> (snd (route cfg st w req) = Responded 200 (MessageBody ''Notification sent successfully'')
          \<or> snd (route cfg st w req) =
              Responded 500 (ErrorBody ''Internal Server Error: Could not find or use target Discord channel'')
          \<or> snd (route cfg st w req) =
              Responded 500 (ErrorBody ''Internal Server Error: Failed to send Discord notification''))"
proof -
  from route_reaches_dispatch [OF assms] obtain es u a d i f where
      r: "route cfg st w req = after es (dispatch cfg w u a d i f)"
      and q: "filter is_chat_call es = []"
    by (elim exE conjE)
  let ?t = "''Error processing notification or sending to Discord for '' @ u @ '':''"
  have 1: "snd (route cfg st w req) =
              Responded 500 (ErrorBody ''Internal Server Error: Failed to send Discord notification'')
          \<and> (\<exists>t. ConsoleError [Str t, Err e] \<in> set (fst (route cfg st w req)))"
    if "channels_fetch w (TARGET_CHANNEL_ID cfg) = Inl e" for e
  proof
    show "snd (route cfg st w req) =
              Responded 500 (ErrorBody ''Internal Server Error: Failed to send Discord notification'')"
      by (simp add: r snd_after dispatch_fetch_throws [OF that] snd_catch_block)
    have "ConsoleError [Str ?t, Err e] \<in> set (fst (route cfg st w req))"
      by (simp add: r fst_after dispatch_fetch_throws [OF that] fst_catch_block)
    then show "\<exists>t. ConsoleError [Str t, Err e] \<in> set (fst (route cfg st w req))" ..
  qed
  have 2: "snd (route cfg st w req) =
              Responded 500 (ErrorBody ''Internal Server Error: Could not find or use target Discord channel'')"
    if "channels_fetch w (TARGET_CHANNEL_ID cfg) = Inr ch \<and> ch \<noteq> Some TextChannel" for ch
    using that by (simp add: r snd_after dispatch_no_text_channel [of w cfg ch])
  have 3: "snd (route cfg st w req) =
              Responded 500 (ErrorBody ''Internal Server Error: Failed to send Discord notification'')
          \<and> (\<exists>t. ConsoleError [Str t, Err e] \<in> set (fst (route cfg st w req)))"
    if "ChannelSend m \<in> set (fst (route cfg st w req)) \<and> channel_send w m = Some e" for m e
  proof
    from that q have s: "ChannelSend m \<in> set (fst (dispatch cfg w u a d i f))"
      by (auto simp: r fst_after dest: not_chat_call_in)
    from that have c: "channel_send w m = Some e" by simp
    note dispatch_send_throws [OF s c]
    then show "snd (route cfg st w req) =
              Responded 500 (ErrorBody ''Internal Server Error: Failed to send Discord notification'')"
      by (simp add: r snd_after snd_catch_block)
    have "ConsoleError [Str ?t, Err e] \<in> set (fst (dispatch cfg w u a d i f))"
      by (subst dispatch_send_throws [OF s c]) (simp add: fst_after fst_catch_block)
    then have "ConsoleError [Str ?t, Err e] \<in> set (fst (route cfg st w req))"
      by (simp add: r fst_after)
    then show "\<exists>t. ConsoleError [Str t, Err e] \<in> set (fst (route cfg st w req))" ..
  qed
  have 4: "snd (route cfg st w req) = Responded 200 (MessageBody ''Notification sent successfully'')
          \<or> snd (route cfg st w req) =
              Responded 500 (ErrorBody ''Internal Server Error: Could not find or use target Discord channel'')
          \<or> snd (route cfg st w req) =
              Responded 500 (ErrorBody ''Internal Server Error: Failed to send Discord notification'')"
    using dispatch_endings [of cfg w u a d i f] by (simp add: r snd_after)
  show ?thesis
  proof (intro conjI allI impI)
    fix e assume "channels_fetch w (TARGET_CHANNEL_ID cfg) = Inl e"
    from 1 [OF this]
    show "snd (route cfg st w req) =
              Responded 500 (ErrorBody ''Internal Server Error: Failed to send Discord notification'')"
      and "\<exists>t. ConsoleError [Str t, Err e] \<in> set (fst (route cfg st w req))"
      by (rule conjunct1, rule conjunct2)
  next
    fix ch assume "channels_fetch w (TARGET_CHANNEL_ID cfg) = Inr ch \<and> ch \<noteq> Some TextChannel"
    from 2 [OF this]
    show "snd (route cfg st w req) =
              Responded 500 (ErrorBody ''Internal Server Error: Could not find or use target Discord channel'')" .
  next
    fix m e assume "ChannelSend m \<in> set (fst (route cfg st w req)) \<and> channel_send w m = Some e"
    from 3 [OF this]
    show "snd (route cfg st w req) =
              Responded 500 (ErrorBody ''Internal Server Error: Failed to send Discord notification'')"
      and "\<exists>t. ConsoleError [Str t, Err e] \<in> set (fst (route cfg st w req))"
      by (rule conjunct1, rule conjunct2)
  next
    show "snd (route cfg st w req) = Responded 200 (MessageBody ''Notification sent successfully'')
          \<or> snd (route cfg st w req) =
              Responded 500 (ErrorBody ''Internal Server Error: Could not find or use target Discord channel'')
          \<or> snd (route cfg st w req) =
              Responded 500 (ErrorBody ''Internal Server Error: Failed to send Discord notification'')"
      by (rule 4)
  qed
qed


theorem dispatcher_failures_are_opaque_witness:
  "channels_fetch fetch_throws_world (TARGET_CHANNEL_ID example_config) = Inl (Upstream ''Missing Access'')
   \<and> snd (route example_config ready_state fetch_throws_world (authorized (Uploaded (Some alice_text) None)))
       = Responded 500 (ErrorBody ''Internal Server Error: Failed to send Discord notification'')
   \<and> (\<exists>t. ConsoleError [Str t, Err (Upstream ''Missing Access'')]
          \<in> set (fst (route example_config ready_state fetch_throws_world
                         (authorized (Uploaded (Some alice_text) None)))))
   \<and> channels_fetch deleted_channel_world (TARGET_CHANNEL_ID example_config) = Inr None
   \<and> snd (route example_config ready_state deleted_channel_world (authorized (Uploaded (Some alice_text) None)))
       = Responded 500 (ErrorBody ''Internal Server Error: Could not find or use target Discord channel'')
   \<and> snd (route example_config ready_state send_throws_world (authorized (Uploaded (Some alice_text) None)))
       = Responded 500 (ErrorBody ''Internal Server Error: Failed to send Discord notification'')
   \<and> (\<exists>t. ConsoleError [Str t, Err (Upstream ''Missing Permissions'')]
          \<in> set (fst (route example_config ready_state send_throws_world
                         (authorized (Uploaded (Some alice_text) None)))))"
proof -
  let ?req = "authorized (Uploaded (Some alice_text) None)"
  let ?m = "\<lparr> embeds = [\<lparr> embed_color = ''#00FF00'', embed_title = TITLE,
           embed_description = ''**Alice** has unlocked the achievement: **Dragon Slayer**!'',
           embed_timestamp = 86400, embed_fields = [], embed_image = None,
           embed_thumbnail = None \<rparr>], files = [] \<rparr> :: nat outbound"
  have c1: "chat_calls (route example_config ready_state fetch_throws_world ?req) \<noteq> []"
    by (simp add: run_fetch_throws chat_calls_eq)
  have f1: "channels_fetch fetch_throws_world (TARGET_CHANNEL_ID example_config)
              = Inl (Upstream ''Missing Access'')"
    by (simp add: failing_worlds_sel)
  note a = dispatcher_failures_are_opaque [OF c1, THEN conjunct1, rule_format, OF f1]
  have c2: "chat_calls (route example_config ready_state deleted_channel_world ?req) \<noteq> []"
    by (simp add: run_deleted_channel chat_calls_eq)
  have f2: "channels_fetch deleted_channel_world (TARGET_CHANNEL_ID example_config) = Inr None"
    by (simp add: failing_worlds_sel)
  then have f2': "channels_fetch deleted_channel_world (TARGET_CHANNEL_ID example_config) = Inr None
      \<and> None \<noteq> Some TextChannel"
    by simp
  note b = dispatcher_failures_are_opaque [OF c2, THEN conjunct2, THEN conjunct1, rule_format, OF f2']
  have c3: "chat_calls (route example_config ready_state send_throws_world ?req) \<noteq> []"
    by (simp add: run_send_throws chat_calls_eq)
  have f3: "ChannelSend ?m \<in> set (fst (route example_config ready_state send_throws_world ?req))
      \<and> channel_send send_throws_world ?m = Some (Upstream ''Missing Permissions'')"
    by (simp add: run_send_throws failing_worlds_sel)
  note c = dispatcher_failures_are_opaque [OF c3, THEN conjunct2, THEN conjunct2, THEN conjunct1,
      rule_format, OF f3]
  show ?thesis
    by (intro conjI) (rule f1, rule a [THEN conjunct1], rule a [THEN conjunct2], rule f2, rule b,
      rule c [THEN conjunct1], rule c [THEN conjunct2])
qed

end
